theory Spec2Isabelle
  imports Main "HOL-Library.Word"
begin

section \<open>Machine arithmetic and failures\<close>

text \<open>
  The contracts are Solidity 0.8: a \<^verbatim>\<open>uint256\<close> is modelled as a natural number, every
  checked operation fails with \<open>Panic\<close> where the machine result would leave the range
  \<open>0 .. 2^256 - 1\<close>, and an \<^verbatim>\<open>unchecked\<close> operation wraps modulo \<open>2^256\<close>. A
  \<^verbatim>\<open>require\<close> that fails, a custom error and a panic all revert the whole transaction: they
  are the \<open>Inl\<close> values of the result type, which carries no state.
\<close>

type_synonym address = "160 word"

datatype error =
    Revert string
  | Panic
  | ERC20InsufficientBalance address nat nat
  | ERC20InsufficientAllowance address nat nat
  | ERC20InvalidSender address
  | ERC20InvalidReceiver address
  | ERC20InvalidApprover address
  | ERC20InvalidSpender address
  | OwnableUnauthorizedAccount address
  | OwnableInvalidOwner address

definition MAX_UINT256 :: nat where
  "MAX_UINT256 = 2 ^ 256 - 1"

fun bindE :: "error + 'a \<Rightarrow> ('a \<Rightarrow> error + 'b) \<Rightarrow> error + 'b" where
  "bindE (Inl e) f = Inl e"
| "bindE (Inr x) f = f x"

definition require :: "bool \<Rightarrow> string \<Rightarrow> error + unit" where
  "require c msg = (if c then Inr () else Inl (Revert msg))"

definition checked_add :: "nat \<Rightarrow> nat \<Rightarrow> error + nat" where
  "checked_add a b = (if a + b \<le> MAX_UINT256 then Inr (a + b) else Inl Panic)"

definition checked_sub :: "nat \<Rightarrow> nat \<Rightarrow> error + nat" where
  "checked_sub a b = (if b \<le> a then Inr (a - b) else Inl Panic)"

definition checked_mul :: "nat \<Rightarrow> nat \<Rightarrow> error + nat" where
  "checked_mul a b = (if a * b \<le> MAX_UINT256 then Inr (a * b) else Inl Panic)"

definition unchecked_add :: "nat \<Rightarrow> nat \<Rightarrow> nat" where
  "unchecked_add a b = (a + b) mod 2 ^ 256"

definition unchecked_sub :: "nat \<Rightarrow> nat \<Rightarrow> nat" where
  "unchecked_sub a b = (a + 2 ^ 256 - b mod 2 ^ 256) mod 2 ^ 256"

section \<open>The token ledger (ALOToken)\<close>

text \<open>
  The storage of \<^verbatim>\<open>ALOToken\<close>: the fields it declares, and the balances, allowances, total
  supply and owner it inherits from its base contracts.
\<close>

record Token =
  balances :: "address \<Rightarrow> nat"
  allowances :: "address \<Rightarrow> address \<Rightarrow> nat"
  totalSupply :: nat
  token_owner :: address
  buybackWallet :: address
  liquidityWallet :: address
  treasuryWallet :: address
  totalBurned :: nat
  totalFees :: nat
  isExcludedFromFee :: "address \<Rightarrow> bool"

definition BUYBACK_FEE :: nat where "BUYBACK_FEE = 100"
definition LIQUIDITY_FEE :: nat where "LIQUIDITY_FEE = 50"
definition TREASURY_FEE :: nat where "TREASURY_FEE = 50"
definition FEE_DENOMINATOR :: nat where "FEE_DENOMINATOR = 10000"
definition decimals :: nat where "decimals = 18"

text \<open>
  Modelled from the spec: the ERC20 and Ownable base contracts that \<^verbatim>\<open>ALOToken\<close> inherits are
  imported from a library (OpenZeppelin, version 5) and their source is not in the repository.
  \<open>ERC20_update\<close> (what the source calls \<^verbatim>\<open>super._update\<close>), \<open>ERC20_approve\<close>,
  \<open>ERC20_spendAllowance\<close>, \<open>ERC20_transfer_internal\<close>, \<open>ERC20_mint\<close>, \<open>ERC20_burn\<close>, the entry
  points \<open>transfer\<close>, \<open>transferFrom\<close> and \<open>approve\<close>, and the owner check give them the ledger
  behaviour the spec describes: an amount moves from one balance to another and the operation
  fails when the source balance is too small; minting from and burning to the zero address
  change the total supply; \<^verbatim>\<open>BurnFrom\<close> needs an allowance of at least the amount and
  decrements it. They have the shape of the library's functions of the same names, with its
  unchecked additions and subtractions written out as wrapping ones.
\<close>

definition ERC20_update :: "Token \<Rightarrow> address \<Rightarrow> address \<Rightarrow> nat \<Rightarrow> error + Token" where
  "ERC20_update s from to value =
     bindE (if from = 0
            then bindE (checked_add (totalSupply s) value) (\<lambda>ts. Inr (s\<lparr>totalSupply := ts\<rparr>))
            else if balances s from < value
            then Inl (ERC20InsufficientBalance from (balances s from) value)
            else Inr (s\<lparr>balances := (balances s)(from := balances s from - value)\<rparr>))
       (\<lambda>s1. Inr (if to = 0
            then s1\<lparr>totalSupply := unchecked_sub (totalSupply s1) value\<rparr>
            else s1\<lparr>balances := (balances s1)(to := unchecked_add (balances s1 to) value)\<rparr>))"

definition ERC20_approve :: "Token \<Rightarrow> address \<Rightarrow> address \<Rightarrow> nat \<Rightarrow> error + Token" where
  "ERC20_approve s owner spender value =
     (if owner = 0 then Inl (ERC20InvalidApprover 0)
      else if spender = 0 then Inl (ERC20InvalidSpender 0)
      else Inr (s\<lparr>allowances := (allowances s)(owner := (allowances s owner)(spender := value))\<rparr>))"

definition ERC20_spendAllowance :: "Token \<Rightarrow> address \<Rightarrow> address \<Rightarrow> nat \<Rightarrow> error + Token" where
  "ERC20_spendAllowance s owner spender value =
     (let currentAllowance = allowances s owner spender in
      if currentAllowance < MAX_UINT256
      then (if currentAllowance < value
            then Inl (ERC20InsufficientAllowance spender currentAllowance value)
            else ERC20_approve s owner spender (currentAllowance - value))
      else Inr s)"

text \<open>
  \<^verbatim>\<open>ALOToken._update\<close> (part_004, lines 72-107), the override every balance movement goes
  through. Mints and burns go to the base ledger unchanged; a transfer between two
  addresses neither of which is excluded pays the three fees first.
\<close>

definition ALOToken_update :: "Token \<Rightarrow> address \<Rightarrow> address \<Rightarrow> nat \<Rightarrow> error + Token" where
  "ALOToken_update s from to amount =
     (if from = 0 \<or> to = 0 then ERC20_update s from to amount
      else
        let takeFee = (\<not> isExcludedFromFee s from \<and> \<not> isExcludedFromFee s to) in
        if takeFee \<and> amount > 0 then
          bindE (checked_mul amount BUYBACK_FEE) (\<lambda>b.
          bindE (checked_mul amount LIQUIDITY_FEE) (\<lambda>l.
          bindE (checked_mul amount TREASURY_FEE) (\<lambda>t.
          let buybackFee = b div FEE_DENOMINATOR;
              liquidityFee = l div FEE_DENOMINATOR;
              treasuryFee = t div FEE_DENOMINATOR in
          bindE (checked_add buybackFee liquidityFee) (\<lambda>bl.
          bindE (checked_add bl treasuryFee) (\<lambda>totalFeeAmount.
          bindE (if buybackFee > 0 then ERC20_update s from (buybackWallet s) buybackFee
                 else Inr s) (\<lambda>s1.
          bindE (if liquidityFee > 0 then ERC20_update s1 from (liquidityWallet s1) liquidityFee
                 else Inr s1) (\<lambda>s2.
          bindE (if treasuryFee > 0 then ERC20_update s2 from (treasuryWallet s2) treasuryFee
                 else Inr s2) (\<lambda>s3.
          bindE (checked_add (totalFees s3) totalFeeAmount) (\<lambda>tf.
          bindE (checked_sub amount totalFeeAmount) (\<lambda>amountAfterFee.
          ERC20_update (s3\<lparr>totalFees := tf\<rparr>) from to amountAfterFee))))))))))
        else ERC20_update s from to amount)"

definition ERC20_transfer_internal :: "Token \<Rightarrow> address \<Rightarrow> address \<Rightarrow> nat \<Rightarrow> error + Token" where
  "ERC20_transfer_internal s from to value =
     (if from = 0 then Inl (ERC20InvalidSender 0)
      else if to = 0 then Inl (ERC20InvalidReceiver 0)
      else ALOToken_update s from to value)"

definition ERC20_mint :: "Token \<Rightarrow> address \<Rightarrow> nat \<Rightarrow> error + Token" where
  "ERC20_mint s account value =
     (if account = 0 then Inl (ERC20InvalidReceiver 0)
      else ALOToken_update s 0 account value)"

definition ERC20_burn :: "Token \<Rightarrow> address \<Rightarrow> nat \<Rightarrow> error + Token" where
  "ERC20_burn s account value =
     (if account = 0 then Inl (ERC20InvalidSender 0)
      else ALOToken_update s account 0 value)"

text \<open>The external entry points; \<open>sender\<close> is \<^verbatim>\<open>msg.sender\<close>.\<close>

definition transfer :: "Token \<Rightarrow> address \<Rightarrow> address \<Rightarrow> nat \<Rightarrow> error + Token" where
  "transfer s sender to value = ERC20_transfer_internal s sender to value"

definition transferFrom :: "Token \<Rightarrow> address \<Rightarrow> address \<Rightarrow> address \<Rightarrow> nat \<Rightarrow> error + Token" where
  "transferFrom s sender from to value =
     bindE (ERC20_spendAllowance s from sender value) (\<lambda>s1.
     ERC20_transfer_internal s1 from to value)"

definition approve :: "Token \<Rightarrow> address \<Rightarrow> address \<Rightarrow> nat \<Rightarrow> error + Token" where
  "approve s sender spender value = ERC20_approve s sender spender value"

definition burn :: "Token \<Rightarrow> address \<Rightarrow> nat \<Rightarrow> error + Token" where
  "burn s sender amount =
     bindE (ERC20_burn s sender amount) (\<lambda>s1.
     bindE (checked_add (totalBurned s1) amount) (\<lambda>tb.
     Inr (s1\<lparr>totalBurned := tb\<rparr>)))"

definition burnFrom :: "Token \<Rightarrow> address \<Rightarrow> address \<Rightarrow> nat \<Rightarrow> error + Token" where
  "burnFrom s sender account amount =
     bindE (ERC20_spendAllowance s account sender amount) (\<lambda>s1.
     bindE (ERC20_burn s1 account amount) (\<lambda>s2.
     bindE (checked_add (totalBurned s2) amount) (\<lambda>tb.
     Inr (s2\<lparr>totalBurned := tb\<rparr>))))"

definition onlyOwner :: "Token \<Rightarrow> address \<Rightarrow> error + unit" where
  "onlyOwner s sender =
     (if token_owner s \<noteq> sender then Inl (OwnableUnauthorizedAccount sender) else Inr ())"

definition setBuybackWallet :: "Token \<Rightarrow> address \<Rightarrow> address \<Rightarrow> error + Token" where
  "setBuybackWallet s sender wallet =
     bindE (onlyOwner s sender) (\<lambda>_.
     bindE (require (wallet \<noteq> 0) ''Invalid address'') (\<lambda>_.
     Inr (s\<lparr>buybackWallet := wallet\<rparr>)))"

definition setLiquidityWallet :: "Token \<Rightarrow> address \<Rightarrow> address \<Rightarrow> error + Token" where
  "setLiquidityWallet s sender wallet =
     bindE (onlyOwner s sender) (\<lambda>_.
     bindE (require (wallet \<noteq> 0) ''Invalid address'') (\<lambda>_.
     Inr (s\<lparr>liquidityWallet := wallet\<rparr>)))"

definition setTreasuryWallet :: "Token \<Rightarrow> address \<Rightarrow> address \<Rightarrow> error + Token" where
  "setTreasuryWallet s sender wallet =
     bindE (onlyOwner s sender) (\<lambda>_.
     bindE (require (wallet \<noteq> 0) ''Invalid address'') (\<lambda>_.
     Inr (s\<lparr>treasuryWallet := wallet\<rparr>)))"

definition setExcludeFromFee :: "Token \<Rightarrow> address \<Rightarrow> address \<Rightarrow> bool \<Rightarrow> error + Token" where
  "setExcludeFromFee s sender account excluded =
     bindE (onlyOwner s sender) (\<lambda>_.
     bindE (require (account \<noteq> 0) ''Invalid address'') (\<lambda>_.
     Inr (s\<lparr>isExcludedFromFee := (isExcludedFromFee s)(account := excluded)\<rparr>)))"

text \<open>
  The two functions every contract of the repository inherits from the Ownable base: the
  owner hands the contract over, to a non-zero address or to nobody.
\<close>

definition ALOToken_transferOwnership :: "Token \<Rightarrow> address \<Rightarrow> address \<Rightarrow> error + Token" where
  "ALOToken_transferOwnership s sender newOwner =
     bindE (onlyOwner s sender) (\<lambda>_.
     if newOwner = 0 then Inl (OwnableInvalidOwner 0)
     else Inr (s\<lparr>token_owner := newOwner\<rparr>))"

definition ALOToken_renounceOwnership :: "Token \<Rightarrow> address \<Rightarrow> error + Token" where
  "ALOToken_renounceOwnership s sender =
     bindE (onlyOwner s sender) (\<lambda>_. Inr (s\<lparr>token_owner := 0\<rparr>))"

text \<open>
  The constructor (part_004, lines 47-67). \<open>sender\<close> deploys the contract; \<open>this\<close> is the
  address the contract is deployed at. Storage starts zeroed.
\<close>

definition empty_token :: Token where
  "empty_token = \<lparr>balances = (\<lambda>_. 0), allowances = (\<lambda>_ _. 0), totalSupply = 0,
     token_owner = 0, buybackWallet = 0, liquidityWallet = 0, treasuryWallet = 0,
     totalBurned = 0, totalFees = 0, isExcludedFromFee = (\<lambda>_. False)\<rparr>"

definition ALOToken_constructor ::
  "address \<Rightarrow> address \<Rightarrow> address \<Rightarrow> address \<Rightarrow> address \<Rightarrow> error + Token" where
  "ALOToken_constructor sender this bw lw tw =
     (if sender = 0 then Inl (OwnableInvalidOwner 0)
      else
        bindE (require (bw \<noteq> 0) ''Invalid buyback wallet'') (\<lambda>_.
        bindE (require (lw \<noteq> 0) ''Invalid liquidity wallet'') (\<lambda>_.
        bindE (require (tw \<noteq> 0) ''Invalid treasury wallet'') (\<lambda>_.
        let s = empty_token\<lparr>token_owner := sender, buybackWallet := bw,
                  liquidityWallet := lw, treasuryWallet := tw\<rparr> in
        bindE (checked_mul 100000000 (10 ^ decimals)) (\<lambda>supply.
        bindE (ERC20_mint s sender supply) (\<lambda>s1.
        Inr (s1\<lparr>isExcludedFromFee := (isExcludedFromFee s1)(sender := True, this := True)\<rparr>)))))))"

section \<open>The governance engine (ALOGovernance)\<close>

datatype ProposalState = Pending | Active | Succeeded | Defeated | Queued | Executed | Canceled

datatype VoteType = Against | For | Abstain

record Receipt =
  hasVoted :: bool
  support :: VoteType
  votes :: nat

record Proposal =
  proposal_id :: nat
  proposer :: address
  title :: string
  description :: string
  startBlock :: nat
  endBlock :: nat
  forVotes :: nat
  againstVotes :: nat
  abstainVotes :: nat
  quorum :: nat
  executed :: bool
  canceled :: bool
  receipts :: "address \<Rightarrow> Receipt"

record Governance =
  gov_owner :: address
  stakingContract :: address
  proposalCount :: nat
  votingDelay :: nat
  votingPeriod :: nat
  proposalThreshold :: nat
  quorumPercentage :: nat
  proposals :: "nat \<Rightarrow> Proposal"

text \<open>
  \<^verbatim>\<open>getVotingPower\<close> (ALOGovernance.sol, lines 243-247) reads the token balance; the token
  ledger at the time of the call is the argument \<open>tok\<close>.
\<close>

definition getVotingPower :: "Token \<Rightarrow> address \<Rightarrow> nat" where
  "getVotingPower tok account = balances tok account"

text \<open>\<^verbatim>\<open>state\<close> (lines 189-207); \<open>bn\<close> is \<^verbatim>\<open>block.number\<close>.\<close>

definition state :: "Governance \<Rightarrow> nat \<Rightarrow> nat \<Rightarrow> error + ProposalState" where
  "state g bn proposalId =
     bindE (require (proposalId > 0 \<and> proposalId \<le> proposalCount g) ''Invalid proposal'') (\<lambda>_.
     let proposal = proposals g proposalId in
     if canceled proposal then Inr Canceled
     else if executed proposal then Inr Executed
     else if bn \<le> startBlock proposal then Inr Pending
     else if bn \<le> endBlock proposal then Inr Active
     else if forVotes proposal \<le> againstVotes proposal \<or> forVotes proposal < quorum proposal
     then Inr Defeated
     else Inr Succeeded)"

text \<open>\<^verbatim>\<open>propose\<close> (lines 114-144): returns the new state and the proposal id.\<close>

definition propose ::
  "Governance \<Rightarrow> Token \<Rightarrow> nat \<Rightarrow> address \<Rightarrow> string \<Rightarrow> string \<Rightarrow> error + Governance \<times> nat" where
  "propose g tok bn sender ttl descr =
     bindE (require (getVotingPower tok sender \<ge> proposalThreshold g)
              ''Proposer votes below proposal threshold'') (\<lambda>_.
     bindE (checked_add (proposalCount g) 1) (\<lambda>proposalId.
     bindE (checked_add bn (votingDelay g)) (\<lambda>sb.
     bindE (checked_add sb (votingPeriod g)) (\<lambda>eb.
     bindE (checked_mul (totalSupply tok) (quorumPercentage g)) (\<lambda>q.
     let newProposal = (proposals g proposalId)\<lparr>proposal_id := proposalId, proposer := sender,
           title := ttl, description := descr, startBlock := sb, endBlock := eb,
           quorum := q div 100\<rparr> in
     Inr (g\<lparr>proposalCount := proposalId,
             proposals := (proposals g)(proposalId := newProposal)\<rparr>, proposalId))))))"

text \<open>\<^verbatim>\<open>_castVote\<close> (lines 156-184) and its external wrapper \<^verbatim>\<open>castVote\<close>.\<close>

definition castVote_internal ::
  "Governance \<Rightarrow> Token \<Rightarrow> nat \<Rightarrow> address \<Rightarrow> nat \<Rightarrow> VoteType \<Rightarrow> error + Governance" where
  "castVote_internal g tok bn voter proposalId vt =
     bindE (state g bn proposalId) (\<lambda>st.
     bindE (require (st = Active) ''Voting is closed'') (\<lambda>_.
     let proposal = proposals g proposalId;
         receipt = receipts proposal voter in
     bindE (require (\<not> hasVoted receipt) ''Already voted'') (\<lambda>_.
     let nvotes = getVotingPower tok voter in
     bindE (require (nvotes > 0) ''No voting power'') (\<lambda>_.
     bindE (if vt = For
            then bindE (checked_add (forVotes proposal) nvotes)
                   (\<lambda>v. Inr (proposal\<lparr>forVotes := v\<rparr>))
            else if vt = Against
            then bindE (checked_add (againstVotes proposal) nvotes)
                   (\<lambda>v. Inr (proposal\<lparr>againstVotes := v\<rparr>))
            else bindE (checked_add (abstainVotes proposal) nvotes)
                   (\<lambda>v. Inr (proposal\<lparr>abstainVotes := v\<rparr>))) (\<lambda>proposal1.
     let receipt1 = receipt\<lparr>hasVoted := True, support := vt, votes := nvotes\<rparr>;
         proposal2 = proposal1\<lparr>receipts := (receipts proposal1)(voter := receipt1)\<rparr> in
     Inr (g\<lparr>proposals := (proposals g)(proposalId := proposal2)\<rparr>))))))"

definition castVote ::
  "Governance \<Rightarrow> Token \<Rightarrow> nat \<Rightarrow> address \<Rightarrow> nat \<Rightarrow> VoteType \<Rightarrow> error + Governance" where
  "castVote g tok bn sender proposalId vt = castVote_internal g tok bn sender proposalId vt"

text \<open>\<^verbatim>\<open>execute\<close> (lines 212-219) and \<^verbatim>\<open>cancel\<close> (lines 224-237).\<close>

definition execute :: "Governance \<Rightarrow> nat \<Rightarrow> nat \<Rightarrow> error + Governance" where
  "execute g bn proposalId =
     bindE (state g bn proposalId) (\<lambda>st.
     bindE (require (st = Succeeded) ''Proposal not succeeded'') (\<lambda>_.
     Inr (g\<lparr>proposals := (proposals g)(proposalId := (proposals g proposalId)\<lparr>executed := True\<rparr>)\<rparr>)))"

definition cancel :: "Governance \<Rightarrow> nat \<Rightarrow> address \<Rightarrow> nat \<Rightarrow> error + Governance" where
  "cancel g bn sender proposalId =
     bindE (require (proposalId > 0 \<and> proposalId \<le> proposalCount g) ''Invalid proposal'') (\<lambda>_.
     let proposal = proposals g proposalId in
     bindE (require (sender = proposer proposal \<or> sender = gov_owner g) ''Not authorized'') (\<lambda>_.
     bindE (state g bn proposalId) (\<lambda>st.
     bindE (require (st \<noteq> Executed) ''Cannot cancel executed proposal'') (\<lambda>_.
     Inr (g\<lparr>proposals := (proposals g)(proposalId := proposal\<lparr>canceled := True\<rparr>)\<rparr>)))))"

definition setVotingParameters ::
  "Governance \<Rightarrow> address \<Rightarrow> nat \<Rightarrow> nat \<Rightarrow> nat \<Rightarrow> nat \<Rightarrow> error + Governance" where
  "setVotingParameters g sender vd vp pt qp =
     (if gov_owner g \<noteq> sender then Inl (OwnableUnauthorizedAccount sender)
      else bindE (require (qp \<le> 100) ''Invalid quorum percentage'') (\<lambda>_.
           Inr (g\<lparr>votingDelay := vd, votingPeriod := vp, proposalThreshold := pt,
                   quorumPercentage := qp\<rparr>)))"

definition setStakingContract :: "Governance \<Rightarrow> address \<Rightarrow> address \<Rightarrow> error + Governance" where
  "setStakingContract g sender sc =
     (if gov_owner g \<noteq> sender then Inl (OwnableUnauthorizedAccount sender)
      else bindE (require (sc \<noteq> 0) ''Invalid address'') (\<lambda>_.
           Inr (g\<lparr>stakingContract := sc\<rparr>)))"

text \<open>The two functions inherited from the Ownable base.\<close>

definition ALOGovernance_transferOwnership ::
  "Governance \<Rightarrow> address \<Rightarrow> address \<Rightarrow> error + Governance" where
  "ALOGovernance_transferOwnership g sender newOwner =
     (if gov_owner g \<noteq> sender then Inl (OwnableUnauthorizedAccount sender)
      else if newOwner = 0 then Inl (OwnableInvalidOwner 0)
      else Inr (g\<lparr>gov_owner := newOwner\<rparr>))"

definition ALOGovernance_renounceOwnership :: "Governance \<Rightarrow> address \<Rightarrow> error + Governance" where
  "ALOGovernance_renounceOwnership g sender =
     (if gov_owner g \<noteq> sender then Inl (OwnableUnauthorizedAccount sender)
      else Inr (g\<lparr>gov_owner := 0\<rparr>))"

text \<open>
  The constructor (lines 92-109). Proposals start as zeroed storage: no flag set, no vote
  recorded, the first enum member as the receipt's vote type.
\<close>

definition empty_receipt :: Receipt where
  "empty_receipt = \<lparr>hasVoted = False, support = Against, votes = 0\<rparr>"

definition empty_proposal :: Proposal where
  "empty_proposal = \<lparr>proposal_id = 0, proposer = 0, title = [], description = [],
     startBlock = 0, endBlock = 0, forVotes = 0, againstVotes = 0, abstainVotes = 0,
     quorum = 0, executed = False, canceled = False, receipts = (\<lambda>_. empty_receipt)\<rparr>"

definition ALOGovernance_constructor ::
  "address \<Rightarrow> address \<Rightarrow> address \<Rightarrow> nat \<Rightarrow> nat \<Rightarrow> nat \<Rightarrow> nat \<Rightarrow> error + Governance" where
  "ALOGovernance_constructor sender aloTokenAddr sc vd vp pt qp =
     (if sender = 0 then Inl (OwnableInvalidOwner 0)
      else bindE (require (aloTokenAddr \<noteq> 0) ''Invalid token address'') (\<lambda>_.
           bindE (require (sc \<noteq> 0) ''Invalid staking contract'') (\<lambda>_.
           Inr \<lparr>gov_owner = sender, stakingContract = sc, proposalCount = 0, votingDelay = vd,
                votingPeriod = vp, proposalThreshold = pt, quorumPercentage = qp,
                proposals = (\<lambda>_. empty_proposal)\<rparr>)))"

text \<open>
  The precedence order of the specification, as a list of guarded outcomes read from the
  top, with \<open>Succeeded\<close> when no guard holds.
\<close>

definition first_match :: "(bool \<times> 'a) list \<Rightarrow> 'a \<Rightarrow> 'a" where
  "first_match cs d = (case find fst cs of None \<Rightarrow> d | Some c \<Rightarrow> snd c)"

definition state_spec :: "Proposal \<Rightarrow> nat \<Rightarrow> ProposalState" where
  "state_spec p bn = first_match
     [(canceled p, Canceled),
      (executed p, Executed),
      (bn \<le> startBlock p, Pending),
      (bn \<le> endBlock p, Active),
      (forVotes p \<le> againstVotes p \<or> forVotes p < quorum p, Defeated)]
     Succeeded"

section \<open>The staking engine (ALOStaking)\<close>

datatype Tier = FREE | BRONZE | SILVER | PLATINUM | DIAMOND

record TierConfig =
  requiredAmount :: nat
  multiplier :: nat

record StakeInfo =
  amount :: nat
  startTime :: nat
  lastClaimTime :: nat
  tier :: Tier
  rewardDebt :: nat

record Staking =
  staking_owner :: address
  rewardRate :: nat
  totalStaked :: nat
  tierConfigs :: "Tier \<Rightarrow> TierConfig"
  stakes :: "address \<Rightarrow> StakeInfo"
  tierStakers :: "Tier \<Rightarrow> nat"
  tierTotalStaked :: "Tier \<Rightarrow> nat"

text \<open>
  The constructor (ALOGovernance.sol, lines 389-400); all other storage starts zeroed, and a
  deleted stake record is the zeroed record again.
\<close>

definition empty_stake :: StakeInfo where
  "empty_stake = \<lparr>amount = 0, startTime = 0, lastClaimTime = 0, tier = FREE, rewardDebt = 0\<rparr>"

definition ALOStaking_constructor :: "address \<Rightarrow> address \<Rightarrow> nat \<Rightarrow> error + Staking" where
  "ALOStaking_constructor sender aloTokenAddr rate =
     (if sender = 0 then Inl (OwnableInvalidOwner 0)
      else bindE (require (aloTokenAddr \<noteq> 0) ''Invalid token address'') (\<lambda>_.
           Inr \<lparr>staking_owner = sender, rewardRate = rate, totalStaked = 0,
                tierConfigs = (\<lambda>_. \<lparr>requiredAmount = 0, multiplier = 0\<rparr>)
                  (FREE := \<lparr>requiredAmount = 0, multiplier = 10000\<rparr>,
                   BRONZE := \<lparr>requiredAmount = 100 * 10 ^ 18, multiplier = 10000\<rparr>,
                   SILVER := \<lparr>requiredAmount = 500 * 10 ^ 18, multiplier = 11000\<rparr>,
                   PLATINUM := \<lparr>requiredAmount = 1000 * 10 ^ 18, multiplier = 12500\<rparr>,
                   DIAMOND := \<lparr>requiredAmount = 1500 * 10 ^ 18, multiplier = 15000\<rparr>),
                stakes = (\<lambda>_. empty_stake), tierStakers = (\<lambda>_. 0),
                tierTotalStaked = (\<lambda>_. 0)\<rparr>))"

text \<open>\<^verbatim>\<open>_getTierForAmount\<close> (lines 561-573).\<close>

definition getTierForAmount :: "Staking \<Rightarrow> nat \<Rightarrow> Tier" where
  "getTierForAmount st a =
     (if a \<ge> requiredAmount (tierConfigs st DIAMOND) then DIAMOND
      else if a \<ge> requiredAmount (tierConfigs st PLATINUM) then PLATINUM
      else if a \<ge> requiredAmount (tierConfigs st SILVER) then SILVER
      else if a \<ge> requiredAmount (tierConfigs st BRONZE) then BRONZE
      else FREE)"

text \<open>\<^verbatim>\<open>calculateRewards\<close> (lines 515-532); \<open>now\<close> is \<^verbatim>\<open>block.timestamp\<close>.\<close>

definition calculateRewards :: "Staking \<Rightarrow> nat \<Rightarrow> address \<Rightarrow> error + nat" where
  "calculateRewards st now user =
     (let userStake = stakes st user in
      if amount userStake = 0 then Inr 0
      else
        bindE (checked_sub now (lastClaimTime userStake)) (\<lambda>timeElapsed.
        let cfg = tierConfigs st (tier userStake) in
        bindE (checked_mul (amount userStake) (rewardRate st)) (\<lambda>ar.
        bindE (checked_mul ar timeElapsed) (\<lambda>art.
        let baseRewards = art div 10 ^ 18 in
        bindE (checked_mul baseRewards (multiplier cfg)) (\<lambda>bm.
        Inr (bm div 10000))))))"

text \<open>
  \<^verbatim>\<open>_claimRewards\<close> (lines 493-510) and its external wrapper. The staking contract, at address
  \<open>this\<close>, calls the token: the state is the pair of the token ledger and the staking storage.
  \<^verbatim>\<open>safeTransfer\<close> is the token's \<open>transfer\<close> with the contract as sender, and reverts when
  the token does.
\<close>

definition claimRewards_internal ::
  "address \<Rightarrow> nat \<Rightarrow> Token \<times> Staking \<Rightarrow> address \<Rightarrow> error + Token \<times> Staking" where
  "claimRewards_internal this now w user =
     (let tok = fst w; st = snd w; userStake = stakes st user in
      bindE (require (amount userStake > 0) ''No active stake'') (\<lambda>_.
      bindE (calculateRewards st now user) (\<lambda>rewards.
      if rewards > 0 then
        bindE (checked_add (rewardDebt userStake) rewards) (\<lambda>rd.
        let st1 = st\<lparr>stakes := (stakes st)
                    (user := userStake\<lparr>lastClaimTime := now, rewardDebt := rd\<rparr>)\<rparr> in
        bindE (checked_add (totalStaked st1) rewards) (\<lambda>need.
        bindE (require (balances tok this \<ge> need) ''Insufficient rewards'') (\<lambda>_.
        bindE (transfer tok this user rewards) (\<lambda>tok1.
        Inr (tok1, st1)))))
      else Inr (tok, st))))"

definition claimRewards ::
  "address \<Rightarrow> nat \<Rightarrow> address \<Rightarrow> Token \<times> Staking \<Rightarrow> error + Token \<times> Staking" where
  "claimRewards this now sender w = claimRewards_internal this now w sender"

text \<open>\<^verbatim>\<open>stake\<close> (lines 405-443).\<close>

definition stake ::
  "address \<Rightarrow> nat \<Rightarrow> address \<Rightarrow> Token \<times> Staking \<Rightarrow> nat \<Rightarrow> error + Token \<times> Staking" where
  "stake this now sender w amt =
     bindE (require (amt > 0) ''Amount must be greater than 0'') (\<lambda>_.
     bindE (if amount (stakes (snd w) sender) > 0
            then claimRewards_internal this now w sender
            else Inr (fst w, (snd w)\<lparr>stakes := (stakes (snd w))
                   (sender := (stakes (snd w) sender)\<lparr>startTime := now, lastClaimTime := now\<rparr>)\<rparr>))
       (\<lambda>w1.
     bindE (transferFrom (fst w1) this sender this amt) (\<lambda>tok2.
     let st1 = snd w1;
         userStake = stakes st1 sender;
         oldAmount = amount userStake;
         oldTier = tier userStake in
     bindE (checked_add oldAmount amt) (\<lambda>newAmount.
     let newTier = getTierForAmount st1 newAmount;
         st2 = st1\<lparr>stakes := (stakes st1)
                 (sender := userStake\<lparr>amount := newAmount, tier := newTier\<rparr>)\<rparr> in
     bindE (if oldAmount = 0
            then bindE (checked_add (tierStakers st2 newTier) 1) (\<lambda>n.
                 Inr (st2\<lparr>tierStakers := (tierStakers st2)(newTier := n)\<rparr>))
            else if oldTier \<noteq> newTier
            then bindE (checked_sub (tierStakers st2 oldTier) 1) (\<lambda>n.
                 let st3 = st2\<lparr>tierStakers := (tierStakers st2)(oldTier := n)\<rparr> in
                 bindE (checked_add (tierStakers st3 newTier) 1) (\<lambda>m.
                 let st4 = st3\<lparr>tierStakers := (tierStakers st3)(newTier := m)\<rparr> in
                 bindE (checked_sub (tierTotalStaked st4 oldTier) oldAmount) (\<lambda>t.
                 Inr (st4\<lparr>tierTotalStaked := (tierTotalStaked st4)(oldTier := t)\<rparr>))))
            else Inr st2) (\<lambda>st5.
     bindE (checked_add (tierTotalStaked st5 newTier) amt) (\<lambda>t.
     bindE (checked_add (totalStaked st5) amt) (\<lambda>ts.
     Inr (tok2, st5\<lparr>tierTotalStaked := (tierTotalStaked st5)(newTier := t),
                      totalStaked := ts\<rparr>))))))))"

text \<open>\<^verbatim>\<open>unstake\<close> (lines 448-481).\<close>

definition unstake ::
  "address \<Rightarrow> nat \<Rightarrow> address \<Rightarrow> Token \<times> Staking \<Rightarrow> nat \<Rightarrow> error + Token \<times> Staking" where
  "unstake this now sender w amt =
     bindE (require (amount (stakes (snd w) sender) \<ge> amt) ''Insufficient staked amount'') (\<lambda>_.
     bindE (require (amt > 0) ''Amount must be greater than 0'') (\<lambda>_.
     bindE (claimRewards_internal this now w sender) (\<lambda>w1.
     let st1 = snd w1;
         userStake = stakes st1 sender;
         oldTier = tier userStake in
     bindE (checked_sub (amount userStake) amt) (\<lambda>newAmount.
     let st2 = st1\<lparr>stakes := (stakes st1)(sender := userStake\<lparr>amount := newAmount\<rparr>)\<rparr>;
         newTier = getTierForAmount st2 newAmount in
     bindE (if newAmount = 0
            then bindE (checked_sub (tierStakers st2 oldTier) 1) (\<lambda>n.
                 Inr (st2\<lparr>tierStakers := (tierStakers st2)(oldTier := n),
                          stakes := (stakes st2)(sender := empty_stake)\<rparr>))
            else if oldTier \<noteq> newTier
            then bindE (checked_sub (tierStakers st2 oldTier) 1) (\<lambda>n.
                 let st3 = st2\<lparr>tierStakers := (tierStakers st2)(oldTier := n)\<rparr> in
                 bindE (checked_add (tierStakers st3 newTier) 1) (\<lambda>m.
                 let st4 = st3\<lparr>tierStakers := (tierStakers st3)(newTier := m)\<rparr> in
                 bindE (checked_add (tierTotalStaked st4 newTier) newAmount) (\<lambda>t.
                 Inr (st4\<lparr>tierTotalStaked := (tierTotalStaked st4)(newTier := t),
                          stakes := (stakes st4)
                            (sender := (stakes st4 sender)\<lparr>tier := newTier\<rparr>)\<rparr>))))
            else Inr st2) (\<lambda>st5.
     bindE (checked_sub (tierTotalStaked st5 oldTier) amt) (\<lambda>t.
     bindE (checked_sub (totalStaked st5) amt) (\<lambda>ts.
     bindE (transfer (fst w1) this sender amt) (\<lambda>tok2.
     Inr (tok2, st5\<lparr>tierTotalStaked := (tierTotalStaked st5)(oldTier := t),
                      totalStaked := ts\<rparr>)))))))))"

text \<open>\<^verbatim>\<open>emergencyWithdraw\<close> (lines 537-556).\<close>

definition emergencyWithdraw ::
  "address \<Rightarrow> address \<Rightarrow> Token \<times> Staking \<Rightarrow> error + Token \<times> Staking" where
  "emergencyWithdraw this sender w =
     (let tok = fst w; st = snd w; userStake = stakes st sender; amt = amount userStake in
      bindE (require (amt > 0) ''No active stake'') (\<lambda>_.
      let t = tier userStake in
      bindE (checked_sub (tierStakers st t) 1) (\<lambda>n.
      bindE (checked_sub (tierTotalStaked st t) amt) (\<lambda>tt.
      bindE (checked_sub (totalStaked st) amt) (\<lambda>ts.
      let st1 = st\<lparr>tierStakers := (tierStakers st)(t := n),
                   tierTotalStaked := (tierTotalStaked st)(t := tt),
                   totalStaked := ts,
                   stakes := (stakes st)(sender := empty_stake)\<rparr> in
      bindE (transfer tok this sender amt) (\<lambda>tok1.
      Inr (tok1, st1)))))))"

text \<open>
  The owner's functions (lines 605-623), and the two inherited from the Ownable base.
\<close>

definition setRewardRate :: "address \<Rightarrow> Token \<times> Staking \<Rightarrow> nat \<Rightarrow> error + Token \<times> Staking" where
  "setRewardRate sender w rate =
     (if staking_owner (snd w) \<noteq> sender then Inl (OwnableUnauthorizedAccount sender)
      else Inr (fst w, (snd w)\<lparr>rewardRate := rate\<rparr>))"

definition setTierConfig ::
  "address \<Rightarrow> Token \<times> Staking \<Rightarrow> Tier \<Rightarrow> nat \<Rightarrow> nat \<Rightarrow> error + Token \<times> Staking" where
  "setTierConfig sender w t req mult =
     (if staking_owner (snd w) \<noteq> sender then Inl (OwnableUnauthorizedAccount sender)
      else Inr (fst w, (snd w)\<lparr>tierConfigs := (tierConfigs (snd w))
                  (t := \<lparr>requiredAmount = req, multiplier = mult\<rparr>)\<rparr>))"

definition ALOStaking_transferOwnership ::
  "address \<Rightarrow> Token \<times> Staking \<Rightarrow> address \<Rightarrow> error + Token \<times> Staking" where
  "ALOStaking_transferOwnership sender w newOwner =
     (if staking_owner (snd w) \<noteq> sender then Inl (OwnableUnauthorizedAccount sender)
      else if newOwner = 0 then Inl (OwnableInvalidOwner 0)
      else Inr (fst w, (snd w)\<lparr>staking_owner := newOwner\<rparr>))"

definition ALOStaking_renounceOwnership ::
  "address \<Rightarrow> Token \<times> Staking \<Rightarrow> error + Token \<times> Staking" where
  "ALOStaking_renounceOwnership sender w =
     (if staking_owner (snd w) \<noteq> sender then Inl (OwnableUnauthorizedAccount sender)
      else Inr (fst w, (snd w)\<lparr>staking_owner := 0\<rparr>))"

definition fundRewards ::
  "address \<Rightarrow> address \<Rightarrow> Token \<times> Staking \<Rightarrow> nat \<Rightarrow> error + Token \<times> Staking" where
  "fundRewards this sender w amt =
     (if staking_owner (snd w) \<noteq> sender then Inl (OwnableUnauthorizedAccount sender)
      else bindE (transferFrom (fst w) this sender this amt) (\<lambda>tok1. Inr (tok1, snd w)))"

section \<open>Runs of the contracts\<close>

text \<open>
  A transaction that reverts leaves the storage as it was: \<open>attempt\<close> keeps the old state
  on an error. A run applies a list of calls one after the other.
\<close>

fun attempt :: "'s \<Rightarrow> error + 's \<Rightarrow> 's" where
  "attempt s (Inl e) = s"
| "attempt s (Inr s') = s'"

text \<open>
  The external functions of the token as calls, each with its sender: those the contract
  declares and those it inherits.
\<close>

datatype token_op =
    Transfer address nat
  | TransferFrom address address nat
  | Approve address nat
  | Burn nat
  | BurnFrom address nat
  | SetBuybackWallet address
  | SetLiquidityWallet address
  | SetTreasuryWallet address
  | SetExcludeFromFee address bool
  | TransferOwnership address
  | RenounceOwnership

fun token_exec :: "Token \<Rightarrow> address \<Rightarrow> token_op \<Rightarrow> error + Token" where
  "token_exec s sender (Transfer to v) = transfer s sender to v"
| "token_exec s sender (TransferFrom from to v) = transferFrom s sender from to v"
| "token_exec s sender (Approve spender v) = approve s sender spender v"
| "token_exec s sender (Burn v) = burn s sender v"
| "token_exec s sender (BurnFrom account v) = burnFrom s sender account v"
| "token_exec s sender (SetBuybackWallet w) = setBuybackWallet s sender w"
| "token_exec s sender (SetLiquidityWallet w) = setLiquidityWallet s sender w"
| "token_exec s sender (SetTreasuryWallet w) = setTreasuryWallet s sender w"
| "token_exec s sender (SetExcludeFromFee a e) = setExcludeFromFee s sender a e"
| "token_exec s sender (TransferOwnership a) = ALOToken_transferOwnership s sender a"
| "token_exec s sender RenounceOwnership = ALOToken_renounceOwnership s sender"

definition token_step :: "Token \<Rightarrow> address \<times> token_op \<Rightarrow> Token" where
  "token_step s c = attempt s (token_exec s (fst c) (snd c))"

fun token_run :: "Token \<Rightarrow> (address \<times> token_op) list \<Rightarrow> Token" where
  "token_run s [] = s"
| "token_run s (c # cs) = token_run (token_step s c) cs"

text \<open>
  The external functions of the governance contract as calls. Each call comes with its block
  height, its sender and the token ledger at that moment, which is where voting power and
  total supply are read.
\<close>

datatype gov_op =
    Propose string string
  | CastVote nat VoteType
  | Execute nat
  | Cancel nat
  | SetVotingParameters nat nat nat nat
  | SetStakingContract address
  | GovTransferOwnership address
  | GovRenounceOwnership

record gov_call =
  call_block :: nat
  call_token :: Token
  call_sender :: address
  call_op :: gov_op

fun gov_exec :: "Governance \<Rightarrow> nat \<Rightarrow> Token \<Rightarrow> address \<Rightarrow> gov_op \<Rightarrow> error + Governance" where
  "gov_exec g bn tok sender (Propose ttl descr) = bindE (propose g tok bn sender ttl descr) (\<lambda>r. Inr (fst r))"
| "gov_exec g bn tok sender (CastVote pid vt) = castVote g tok bn sender pid vt"
| "gov_exec g bn tok sender (Execute pid) = execute g bn pid"
| "gov_exec g bn tok sender (Cancel pid) = cancel g bn sender pid"
| "gov_exec g bn tok sender (SetVotingParameters vd vp pt qp) = setVotingParameters g sender vd vp pt qp"
| "gov_exec g bn tok sender (SetStakingContract sc) = setStakingContract g sender sc"
| "gov_exec g bn tok sender (GovTransferOwnership a) = ALOGovernance_transferOwnership g sender a"
| "gov_exec g bn tok sender GovRenounceOwnership = ALOGovernance_renounceOwnership g sender"

definition gov_step :: "Governance \<Rightarrow> gov_call \<Rightarrow> Governance" where
  "gov_step g c = attempt g (gov_exec g (call_block c) (call_token c) (call_sender c) (call_op c))"

fun gov_run :: "Governance \<Rightarrow> gov_call list \<Rightarrow> Governance" where
  "gov_run g [] = g"
| "gov_run g (c # cs) = gov_run (gov_step g c) cs"

text \<open>
  The external functions of the staking contract as calls, each with its timestamp and its
  sender, on the pair of token ledger and staking storage. \<open>staking_reachable\<close> are the
  storage states the contract gets into from its constructor by any calls, made by any sender
  at any time against any token ledger.
\<close>

datatype staking_op =
    Stake nat
  | Unstake nat
  | ClaimRewards
  | EmergencyWithdraw
  | SetRewardRate nat
  | SetTierConfig Tier nat nat
  | FundRewards nat
  | StakingTransferOwnership address
  | StakingRenounceOwnership

fun staking_exec ::
  "address \<Rightarrow> nat \<Rightarrow> address \<Rightarrow> Token \<times> Staking \<Rightarrow> staking_op \<Rightarrow> error + Token \<times> Staking" where
  "staking_exec this now sender w (Stake amt) = stake this now sender w amt"
| "staking_exec this now sender w (Unstake amt) = unstake this now sender w amt"
| "staking_exec this now sender w ClaimRewards = claimRewards this now sender w"
| "staking_exec this now sender w EmergencyWithdraw = emergencyWithdraw this sender w"
| "staking_exec this now sender w (SetRewardRate rate) = setRewardRate sender w rate"
| "staking_exec this now sender w (SetTierConfig t req mult) = setTierConfig sender w t req mult"
| "staking_exec this now sender w (FundRewards amt) = fundRewards this sender w amt"
| "staking_exec this now sender w (StakingTransferOwnership a) =
     ALOStaking_transferOwnership sender w a"
| "staking_exec this now sender w StakingRenounceOwnership =
     ALOStaking_renounceOwnership sender w"

definition staking_step ::
  "address \<Rightarrow> Token \<times> Staking \<Rightarrow> nat \<times> address \<times> staking_op \<Rightarrow> Token \<times> Staking" where
  "staking_step this w c = attempt w (staking_exec this (fst c) (fst (snd c)) w (snd (snd c)))"

fun staking_run ::
  "address \<Rightarrow> Token \<times> Staking \<Rightarrow> (nat \<times> address \<times> staking_op) list \<Rightarrow> Token \<times> Staking" where
  "staking_run this w [] = w"
| "staking_run this w (c # cs) = staking_run this (staking_step this w c) cs"

inductive staking_reachable :: "Staking \<Rightarrow> bool" where
  deployed: "ALOStaking_constructor sender tokenAddr rate = Inr st \<Longrightarrow> staking_reachable st"
| called: "staking_reachable st \<Longrightarrow> staking_exec this now sender (tok, st) op = Inr (tok', st')
     \<Longrightarrow> staking_reachable st'"

section \<open>The quantities of the specification\<close>

text \<open>
  For the ledger: the sum of all balances (an address is a 160-bit word, so there are
  finitely many), the supply the constructor mints, the movement of \<open>v\<close> units from one
  balance to another, and the invariant of the ledger.
\<close>

definition total_balance :: "Token \<Rightarrow> nat" where
  "total_balance s = (\<Sum>a\<in>UNIV. balances s a)"

definition INITIAL_SUPPLY :: nat where
  "INITIAL_SUPPLY = 100000000 * 10 ^ 18"

definition ledger_move :: "(address \<Rightarrow> nat) \<Rightarrow> address \<Rightarrow> address \<Rightarrow> nat \<Rightarrow> address \<Rightarrow> nat" where
  "ledger_move B from to v = (B(from := B from - v))(to := (B(from := B from - v)) to + v)"

definition token_inv :: "Token \<Rightarrow> bool" where
  "token_inv s \<longleftrightarrow> total_balance s + totalBurned s = INITIAL_SUPPLY \<and>
     buybackWallet s \<noteq> 0 \<and> liquidityWallet s \<noteq> 0 \<and> treasuryWallet s \<noteq> 0"

text \<open>
  For proposals: the edges of the life cycle in the specification, and the relation
  \<open>forward\<close> they generate (spelled out, so that it can be evaluated).
\<close>

fun transition :: "ProposalState \<Rightarrow> ProposalState \<Rightarrow> bool" where
  "transition Pending Active = True"
| "transition Active Succeeded = True"
| "transition Active Defeated = True"
| "transition Succeeded Executed = True"
| "transition x Canceled = (x \<noteq> Executed)"
| "transition x y = False"

fun forward :: "ProposalState \<Rightarrow> ProposalState \<Rightarrow> bool" where
  "forward Pending y = (y \<noteq> Queued)"
| "forward Active y = (y = Active \<or> y = Succeeded \<or> y = Defeated \<or> y = Executed \<or> y = Canceled)"
| "forward Succeeded y = (y = Succeeded \<or> y = Executed \<or> y = Canceled)"
| "forward Defeated y = (y = Defeated \<or> y = Canceled)"
| "forward Queued y = (y = Queued \<or> y = Canceled)"
| "forward Executed y = (y = Executed)"
| "forward Canceled y = (y = Canceled)"

text \<open>
  For staking: the tier lookup in the specification's words (scan from the highest tier down
  and take the first whose threshold is at most the staked amount, FREE when there is none),
  the list of tiers, the sum of all stake records' amounts and the number of addresses with a
  non-zero stake in a tier. \<open>staking_effect\<close> describes a call that touches the record of one
  address only and keeps the total and the staker counts in step with that record.
\<close>

definition getTier_spec :: "Staking \<Rightarrow> nat \<Rightarrow> Tier" where
  "getTier_spec st a =
     (case find (\<lambda>t. requiredAmount (tierConfigs st t) \<le> a) [DIAMOND, PLATINUM, SILVER, BRONZE] of
        Some t \<Rightarrow> t
      | None \<Rightarrow> FREE)"

definition all_tiers :: "Tier list" where
  "all_tiers = [FREE, BRONZE, SILVER, PLATINUM, DIAMOND]"

definition staked_sum :: "Staking \<Rightarrow> nat" where
  "staked_sum st = (\<Sum>a\<in>UNIV. amount (stakes st a))"

definition stakers_in :: "Staking \<Rightarrow> Tier \<Rightarrow> nat" where
  "stakers_in st t = card {a. amount (stakes st a) \<noteq> 0 \<and> tier (stakes st a) = t}"

definition staking_inv :: "Staking \<Rightarrow> bool" where
  "staking_inv st \<longleftrightarrow> totalStaked st = staked_sum st \<and> (\<forall>t. tierStakers st t = stakers_in st t)"

definition staking_effect :: "Staking \<Rightarrow> Staking \<Rightarrow> address \<Rightarrow> bool" where
  "staking_effect st st' x \<longleftrightarrow>
     (\<forall>a. a \<noteq> x \<longrightarrow> stakes st' a = stakes st a) \<and>
     totalStaked st' + amount (stakes st x) = totalStaked st + amount (stakes st' x) \<and>
     (\<forall>t. tierStakers st' t + (if amount (stakes st x) \<noteq> 0 \<and> tier (stakes st x) = t then 1 else 0)
        = tierStakers st t + (if amount (stakes st' x) \<noteq> 0 \<and> tier (stakes st' x) = t then 1 else 0))"

section \<open>Scenarios\<close>

text \<open>
  The token: address 1 deploys it at address 2 with the fee wallets 3, 4 and 5. In the first
  scenario the owner gives 10,000 units to address 6, which pays 1,000 units to address 7
  (neither is excluded from fees); address 7 then burns 80 units and, with an allowance of
  50 from address 6, burns 20 of its units.
\<close>

definition scenario_genesis :: Token where
  "scenario_genesis = attempt empty_token (ALOToken_constructor 1 2 3 4 5)"

definition scenario_funded :: Token where
  "scenario_funded = token_run scenario_genesis [(1, Transfer 6 10000)]"

definition scenario_paid :: Token where
  "scenario_paid = attempt scenario_funded (transfer scenario_funded 6 7 1000)"

definition scenario_burns :: "(address \<times> token_op) list" where
  "scenario_burns = [(1, Transfer 6 10000), (6, Transfer 7 1000), (7, Burn 80),
     (6, Approve 7 50), (7, BurnFrom 6 20)]"

text \<open>
  Governance: address 6 holds 5,000,000 tokens and address 1 the rest of the 100,000,000;
  the contract has a voting delay of one block, a voting period of ten blocks, a proposal
  threshold of 1,000 tokens and a quorum of ten percent. Address 1 creates proposal 1 at
  block 0; its window is the blocks 2 to 11. In \<open>scenario_voted\<close> address 6 votes for it at
  block 2; in \<open>scenario_passed\<close> address 1 votes for it and executes it at block 12.
\<close>

definition empty_governance :: Governance where
  "empty_governance = \<lparr>gov_owner = 0, stakingContract = 0, proposalCount = 0, votingDelay = 0,
     votingPeriod = 0, proposalThreshold = 0, quorumPercentage = 0,
     proposals = (\<lambda>_. empty_proposal)\<rparr>"

definition scenario_token :: Token where
  "scenario_token = attempt empty_token
     (bindE (ALOToken_constructor 1 2 3 4 5) (\<lambda>s. transfer s 1 6 (5000000 * 10 ^ 18)))"

definition scenario_gov :: Governance where
  "scenario_gov = attempt empty_governance
     (bindE (ALOGovernance_constructor 1 2 7 1 10 (1000 * 10 ^ 18) 10) (\<lambda>g.
      bindE (propose g scenario_token 0 1 ''Test'' ''Test'') (\<lambda>r. Inr (fst r))))"

definition scenario_vote :: "address \<Rightarrow> nat \<Rightarrow> VoteType \<Rightarrow> gov_call" where
  "scenario_vote voter bn vt =
     \<lparr>call_block = bn, call_token = scenario_token, call_sender = voter, call_op = CastVote 1 vt\<rparr>"

definition scenario_voted :: Governance where
  "scenario_voted = gov_run scenario_gov [scenario_vote 6 2 For]"

definition scenario_execute :: "nat \<Rightarrow> gov_call" where
  "scenario_execute bn =
     \<lparr>call_block = bn, call_token = scenario_token, call_sender = 1, call_op = Execute 1\<rparr>"

definition scenario_passed :: Governance where
  "scenario_passed = gov_run scenario_gov [scenario_vote 1 2 For, scenario_execute 12]"

text \<open>
  Staking: the contract at address 9 is what the constructor leaves for a reward rate of 1;
  it is excluded from fees and funded with 1,000,000 tokens; address 6 holds 10,000 tokens
  and has approved the contract for them. Address 6 stakes 1,000 tokens at time 1000
  (\<open>scenario_platinum\<close>) and claims a day later (\<open>scenario_claimed\<close>), or stakes 1500.7
  tokens (\<open>scenario_fraction\<close>), or a single unit (\<open>scenario_dust\<close>), or 100 tokens and a
  day later 400 more (\<open>scenario_two_stakes\<close>), or 1,000 tokens of which it unstakes 900 a
  day later (\<open>scenario_unstaked\<close>), or a single unit and a day later the rest of 1,000 tokens
  (\<open>scenario_stale\<close>), or 1,000 tokens at once on that later day (\<open>scenario_fresh\<close>).
\<close>

definition scenario_staking0 :: Staking where
  "scenario_staking0 =
     \<lparr>staking_owner = 1, rewardRate = 1, totalStaked = 0,
      tierConfigs = (\<lambda>_. \<lparr>requiredAmount = 0, multiplier = 0\<rparr>)
        (FREE := \<lparr>requiredAmount = 0, multiplier = 10000\<rparr>,
         BRONZE := \<lparr>requiredAmount = 100 * 10 ^ 18, multiplier = 10000\<rparr>,
         SILVER := \<lparr>requiredAmount = 500 * 10 ^ 18, multiplier = 11000\<rparr>,
         PLATINUM := \<lparr>requiredAmount = 1000 * 10 ^ 18, multiplier = 12500\<rparr>,
         DIAMOND := \<lparr>requiredAmount = 1500 * 10 ^ 18, multiplier = 15000\<rparr>),
      stakes = (\<lambda>_. empty_stake), tierStakers = (\<lambda>_. 0), tierTotalStaked = (\<lambda>_. 0)\<rparr>"

definition scenario_stake_token :: Token where
  "scenario_stake_token = token_run scenario_genesis
     [(1, SetExcludeFromFee 9 True), (1, Transfer 9 (1000000 * 10 ^ 18)),
      (1, Transfer 6 (10000 * 10 ^ 18)), (6, Approve 9 (10000 * 10 ^ 18))]"

definition scenario_platinum :: "Token \<times> Staking" where
  "scenario_platinum = staking_run 9 (scenario_stake_token, scenario_staking0)
     [(1000, 6, Stake (1000 * 10 ^ 18))]"

definition scenario_claimed :: "Token \<times> Staking" where
  "scenario_claimed = attempt scenario_platinum (claimRewards 9 87400 6 scenario_platinum)"

definition scenario_fraction :: "Token \<times> Staking" where
  "scenario_fraction = staking_run 9 (scenario_stake_token, scenario_staking0)
     [(1000, 6, Stake (15007 * 10 ^ 17))]"

definition scenario_dust :: "Token \<times> Staking" where
  "scenario_dust = staking_run 9 (scenario_stake_token, scenario_staking0)
     [(1000, 6, Stake 1)]"

definition scenario_two_stakes :: "Token \<times> Staking" where
  "scenario_two_stakes = staking_run 9 (scenario_stake_token, scenario_staking0)
     [(1000, 6, Stake (100 * 10 ^ 18)), (87400, 6, Stake (400 * 10 ^ 18))]"

definition scenario_unstaked :: "Token \<times> Staking" where
  "scenario_unstaked = staking_run 9 (scenario_stake_token, scenario_staking0)
     [(1000, 6, Stake (1000 * 10 ^ 18)), (87400, 6, Unstake (900 * 10 ^ 18))]"

definition scenario_stale :: "Token \<times> Staking" where
  "scenario_stale = staking_run 9 (scenario_stake_token, scenario_staking0)
     [(1000, 6, Stake 1), (87400, 6, Stake (1000 * 10 ^ 18 - 1))]"

definition scenario_fresh :: "Token \<times> Staking" where
  "scenario_fresh = staking_run 9 (scenario_stake_token, scenario_staking0)
     [(87400, 6, Stake (1000 * 10 ^ 18))]"

section \<open>Properties of the governance engine\<close>

lemma state_valid:
  "0 < pid \<Longrightarrow> pid \<le> proposalCount g \<Longrightarrow>
   state g bn pid = Inr (state_spec (proposals g pid) bn)"
  by (simp add: state_def require_def state_spec_def first_match_def Let_def)

lemma state_invalid:
  "\<not> (0 < pid \<and> pid \<le> proposalCount g) \<Longrightarrow> state g bn pid = Inl (Revert ''Invalid proposal'')"
  by (auto simp add: state_def require_def)

text \<open>
  C10: the \<open>Queued\<close> member of the enumeration is never the result of \<open>state\<close>, for any
  storage, any block height and any proposal id.
\<close>

theorem state_never_Queued: "state g bn pid \<noteq> Inr Queued"
  by (simp add: state_def require_def Let_def)

lemma forward_refl: "forward x x"
  by (cases x) simp_all

lemma forward_trans: "forward x y \<Longrightarrow> forward y z \<Longrightarrow> forward x z"
  by (cases x; cases y; cases z) simp_all

lemma forward_antisym: "forward x y \<Longrightarrow> forward y x \<Longrightarrow> x = y"
  by (cases x; cases y) simp_all

lemma transition_forward: "transition x y \<Longrightarrow> forward x y"
  by (cases x; cases y) simp_all

lemma forward_is_closure: "forward x y = transition\<^sup>*\<^sup>* x y"
proof
  assume "transition\<^sup>*\<^sup>* x y"
  then show "forward x y"
    by (induction rule: rtranclp_induct) (auto intro: forward_refl forward_trans transition_forward)
next
  have PA: "transition\<^sup>*\<^sup>* Pending Active" by (rule r_into_rtranclp) simp
  have AS: "transition\<^sup>*\<^sup>* Active Succeeded" by (rule r_into_rtranclp) simp
  have AD: "transition\<^sup>*\<^sup>* Active Defeated" by (rule r_into_rtranclp) simp
  have SE: "transition\<^sup>*\<^sup>* Succeeded Executed" by (rule r_into_rtranclp) simp
  have C: "x \<noteq> Executed \<Longrightarrow> transition\<^sup>*\<^sup>* x Canceled" for x
    by (rule r_into_rtranclp) (cases x; simp)
  assume "forward x y"
  then show "transition\<^sup>*\<^sup>* x y"
    by (cases x; cases y) (auto intro: PA AS AD SE C rtranclp_trans [OF PA AS] rtranclp_trans [OF PA AD]
        rtranclp_trans [OF AS SE] rtranclp_trans [OF PA rtranclp_trans [OF AS SE]])
qed

lemma state_spec_time:
  "bn \<le> bn' \<Longrightarrow> forward (state_spec p bn) (state_spec p bn')"
  by (simp add: state_spec_def first_match_def)

lemma bindE_Inr_iff: "bindE m f = Inr y \<longleftrightarrow> (\<exists>x. m = Inr x \<and> f x = Inr y)"
  by (cases m) simp_all

lemma require_Inr_iff: "require c msg = Inr u \<longleftrightarrow> c"
  by (simp add: require_def)

lemma checked_add_Inr_iff: "checked_add a b = Inr c \<longleftrightarrow> c = a + b \<and> a + b \<le> MAX_UINT256"
  by (auto simp: checked_add_def)

lemma propose_effect:
  assumes "propose g tok bn sender ttl descr = Inr (g', n)"
  shows "proposalCount g' = Suc (proposalCount g)"
    and "pid \<le> proposalCount g \<Longrightarrow> proposals g' pid = proposals g pid"
    and "receipts (proposals g' pid) = receipts (proposals g pid)"
  using assms
  by (auto simp: propose_def bindE_Inr_iff require_Inr_iff checked_add_Inr_iff Let_def)

lemma state_Inr_iff:
  "state g bn pid = Inr x \<longleftrightarrow> 0 < pid \<and> pid \<le> proposalCount g \<and> x = state_spec (proposals g pid) bn"
  by (cases "0 < pid \<and> pid \<le> proposalCount g") (auto simp: state_valid state_invalid)

lemma state_spec_Active_iff:
  "state_spec p bn = Active \<longleftrightarrow> \<not> canceled p \<and> \<not> executed p \<and> startBlock p < bn \<and> bn \<le> endBlock p"
  by (auto simp: state_spec_def first_match_def)

lemma state_spec_Executed_iff: "state_spec p bn = Executed \<longleftrightarrow> \<not> canceled p \<and> executed p"
  by (auto simp: state_spec_def first_match_def)

lemma state_spec_Canceled_iff: "state_spec p bn = Canceled \<longleftrightarrow> canceled p"
  by (auto simp: state_spec_def first_match_def)

lemma state_spec_Succeeded_not_flags: "state_spec p bn = Succeeded \<Longrightarrow> \<not> canceled p \<and> \<not> executed p"
  by (auto simp: state_spec_def first_match_def split: if_splits)

lemma state_spec_canceled_upd: "state_spec (p\<lparr>canceled := True\<rparr>) bn = Canceled"
  by (simp add: state_spec_Canceled_iff)

lemma state_spec_executed_upd: "\<not> canceled p \<Longrightarrow> state_spec (p\<lparr>executed := True\<rparr>) bn = Executed"
  by (simp add: state_spec_Executed_iff)

lemma receipt_upd_all:
  "(r::Receipt)\<lparr>hasVoted := a, support := b, votes := c\<rparr> = \<lparr>hasVoted = a, support = b, votes = c\<rparr>"
  by (cases r) simp

lemma castVote_shape:
  assumes "castVote g tok bn voter p vt = Inr g'"
  shows "\<exists>P. g' = g\<lparr>proposals := (proposals g)(p := P)\<rparr> \<and>
             state_spec (proposals g p) bn = Active \<and>
             canceled P = canceled (proposals g p) \<and> executed P = executed (proposals g p) \<and>
             startBlock P = startBlock (proposals g p) \<and> endBlock P = endBlock (proposals g p) \<and>
             0 < p \<and> p \<le> proposalCount g \<and> \<not> hasVoted (receipts (proposals g p) voter) \<and>
             receipts P = (receipts (proposals g p))
               (voter := \<lparr>hasVoted = True, support = vt, votes = getVotingPower tok voter\<rparr>)"
proof (cases vt)
  case Against
  with assms show ?thesis
    by (auto simp: castVote_def castVote_internal_def bindE_Inr_iff require_Inr_iff state_Inr_iff Let_def
        receipt_upd_all)
next
  case For
  with assms show ?thesis
    by (auto simp: castVote_def castVote_internal_def bindE_Inr_iff require_Inr_iff state_Inr_iff Let_def
        receipt_upd_all)
next
  case Abstain
  with assms show ?thesis
    by (auto simp: castVote_def castVote_internal_def bindE_Inr_iff require_Inr_iff state_Inr_iff Let_def
        receipt_upd_all)
qed

lemma castVote_effect:
  assumes "castVote g tok bn voter p vt = Inr g'"
  shows "proposalCount g' = proposalCount g \<and>
    state_spec (proposals g' pid) bn = state_spec (proposals g pid) bn"
proof -
  from castVote_shape [OF assms] obtain P where
    g': "g' = g\<lparr>proposals := (proposals g)(p := P)\<rparr>" and
    act: "state_spec (proposals g p) bn = Active" and
    same: "canceled P = canceled (proposals g p)" "executed P = executed (proposals g p)"
      "startBlock P = startBlock (proposals g p)" "endBlock P = endBlock (proposals g p)"
    by blast
  from act same have "state_spec P bn = Active"
    by (simp add: state_spec_Active_iff)
  with act g' show ?thesis by simp
qed

lemma execute_effect:
  assumes "execute g bn p = Inr g'"
  shows "proposalCount g' = proposalCount g \<and>
    forward (state_spec (proposals g pid) bn) (state_spec (proposals g' pid) bn)"
proof -
  from assms have s: "state_spec (proposals g p) bn = Succeeded"
    and g': "g' = g\<lparr>proposals := (proposals g)(p := (proposals g p)\<lparr>executed := True\<rparr>)\<rparr>"
    by (auto simp: execute_def bindE_Inr_iff require_Inr_iff state_Inr_iff)
  from state_spec_Succeeded_not_flags [OF s]
  have "state_spec ((proposals g p)\<lparr>executed := True\<rparr>) bn = Executed"
    by (simp add: state_spec_executed_upd)
  with s g' show ?thesis by (simp add: forward_refl)
qed

lemma cancel_effect:
  assumes "cancel g bn sender p = Inr g'"
  shows "proposalCount g' = proposalCount g \<and>
    forward (state_spec (proposals g pid) bn) (state_spec (proposals g' pid) bn)"
proof -
  from assms have s: "state_spec (proposals g p) bn \<noteq> Executed"
    and g': "g' = g\<lparr>proposals := (proposals g)(p := (proposals g p)\<lparr>canceled := True\<rparr>)\<rparr>"
    by (auto simp: cancel_def bindE_Inr_iff require_Inr_iff state_Inr_iff Let_def)
  have "forward (state_spec (proposals g p) bn) Canceled"
    using s by (cases "state_spec (proposals g p) bn") simp_all
  with g' show ?thesis by (simp add: forward_refl state_spec_canceled_upd)
qed

lemma setVotingParameters_effect:
  assumes "setVotingParameters g sender vd vp pt qp = Inr g'"
  shows "proposalCount g' = proposalCount g \<and> proposals g' = proposals g"
  using assms
  by (auto simp: setVotingParameters_def bindE_Inr_iff require_Inr_iff split: if_splits)

lemma setStakingContract_effect:
  assumes "setStakingContract g sender sc = Inr g'"
  shows "proposalCount g' = proposalCount g \<and> proposals g' = proposals g"
  using assms
  by (auto simp: setStakingContract_def bindE_Inr_iff require_Inr_iff split: if_splits)

lemma ALOGovernance_ownership_effect:
  "ALOGovernance_transferOwnership g sender a = Inr g' \<Longrightarrow>
     proposalCount g' = proposalCount g \<and> proposals g' = proposals g"
  "ALOGovernance_renounceOwnership g sender = Inr g' \<Longrightarrow>
     proposalCount g' = proposalCount g \<and> proposals g' = proposals g"
  by (auto simp: ALOGovernance_transferOwnership_def ALOGovernance_renounceOwnership_def
      split: if_splits)

lemma gov_exec_forward:
  assumes "gov_exec g bn tok sender op = Inr g'" and "pid \<le> proposalCount g"
  shows "proposalCount g \<le> proposalCount g' \<and>
         forward (state_spec (proposals g pid) bn) (state_spec (proposals g' pid) bn)"
proof (cases op)
  case (Propose ttl descr)
  with assms(1) obtain n where "propose g tok bn sender ttl descr = Inr (g', n)"
    by (auto simp: bindE_Inr_iff)
  from propose_effect(1,2) [OF this] assms(2) show ?thesis
    by (simp add: forward_refl)
next
  case (CastVote p vt)
  with assms(1) castVote_effect [of g tok bn sender p vt g' pid] show ?thesis
    by (simp add: forward_refl)
next
  case (Execute p)
  with assms(1) execute_effect [of g bn p g' pid] show ?thesis by simp
next
  case (Cancel p)
  with assms(1) cancel_effect [of g bn sender p g' pid] show ?thesis by simp
next
  case (SetVotingParameters vd vp pt qp)
  with assms(1) setVotingParameters_effect [of g sender vd vp pt qp g'] show ?thesis
    by (simp add: forward_refl)
next
  case (SetStakingContract sc)
  with assms(1) setStakingContract_effect [of g sender sc g'] show ?thesis
    by (simp add: forward_refl)
next
  case (GovTransferOwnership a)
  with assms(1) ALOGovernance_ownership_effect(1) [of g sender a g'] show ?thesis
    by (simp add: forward_refl)
next
  case GovRenounceOwnership
  with assms(1) ALOGovernance_ownership_effect(2) [of g sender g'] show ?thesis
    by (simp add: forward_refl)
qed

lemma gov_step_forward:
  assumes "pid \<le> proposalCount g"
  shows "proposalCount g \<le> proposalCount (gov_step g c) \<and>
         forward (state_spec (proposals g pid) (call_block c))
                 (state_spec (proposals (gov_step g c) pid) (call_block c))"
proof (cases "gov_exec g (call_block c) (call_token c) (call_sender c) (call_op c)")
  case (Inl e)
  then show ?thesis by (simp add: gov_step_def forward_refl)
next
  case (Inr g')
  from gov_exec_forward [OF Inr assms] Inr show ?thesis by (simp add: gov_step_def)
qed

lemma gov_run_forward:
  "pid \<le> proposalCount g \<Longrightarrow> sorted (bn # map call_block cs) \<Longrightarrow>
   pid \<le> proposalCount (gov_run g cs) \<and>
   forward (state_spec (proposals g pid) bn)
           (state_spec (proposals (gov_run g cs) pid) (last (bn # map call_block cs)))"
proof (induction cs arbitrary: g bn)
  case Nil
  then show ?case by (simp add: forward_refl)
next
  case (Cons c cs)
  have le: "bn \<le> call_block c" using Cons.prems(2) by simp
  have srt: "sorted (call_block c # map call_block cs)" using Cons.prems(2) by simp
  from gov_step_forward [OF Cons.prems(1), of c]
  have cnt: "pid \<le> proposalCount (gov_step g c)"
    and fw: "forward (state_spec (proposals g pid) (call_block c))
                 (state_spec (proposals (gov_step g c) pid) (call_block c))"
    using Cons.prems(1) by auto
  from Cons.IH [OF cnt srt]
  have "pid \<le> proposalCount (gov_run (gov_step g c) cs)"
    and "forward (state_spec (proposals (gov_step g c) pid) (call_block c))
           (state_spec (proposals (gov_run (gov_step g c) cs) pid) (last (call_block c # map call_block cs)))"
    by auto
  with fw state_spec_time [OF le, of "proposals g pid"] show ?case
    by (auto intro: forward_trans)
qed

lemmas arith_defs = MAX_UINT256_def checked_add_def checked_sub_def checked_mul_def
  unchecked_add_def unchecked_sub_def require_def

lemmas token_defs = ALOToken_constructor_def ERC20_mint_def ERC20_burn_def ALOToken_update_def
  ERC20_update_def ERC20_transfer_internal_def transfer_def transferFrom_def approve_def
  ERC20_approve_def ERC20_spendAllowance_def burn_def burnFrom_def empty_token_def decimals_def
  BUYBACK_FEE_def LIQUIDITY_FEE_def TREASURY_FEE_def FEE_DENOMINATOR_def

lemma scenario_token_eq:
  "scenario_token = \<lparr>balances = (\<lambda>_. 0)(1 := 95000000 * 10 ^ 18, 6 := 5000000 * 10 ^ 18),
     allowances = (\<lambda>_ _. 0), totalSupply = 100000000 * 10 ^ 18,
     token_owner = 1, buybackWallet = 3, liquidityWallet = 4, treasuryWallet = 5,
     totalBurned = 0, totalFees = 0, isExcludedFromFee = (\<lambda>_. False)(1 := True, 2 := True)\<rparr>"
  by (simp add: scenario_token_def token_defs arith_defs Let_def)

lemma scenario_gov_eq:
  "scenario_gov = \<lparr>gov_owner = 1, stakingContract = 7, proposalCount = 1, votingDelay = 1,
     votingPeriod = 10, proposalThreshold = 1000 * 10 ^ 18, quorumPercentage = 10,
     proposals = (\<lambda>_. empty_proposal)(1 := empty_proposal\<lparr>proposal_id := 1, proposer := 1,
       title := ''Test'', description := ''Test'', startBlock := 1, endBlock := 11,
       quorum := 10000000 * 10 ^ 18\<rparr>)\<rparr>"
  by (simp add: scenario_gov_def ALOGovernance_constructor_def propose_def getVotingPower_def
      scenario_token_eq arith_defs Let_def)

text \<open>
  C2: for every existing proposal (\<open>0 < pid \<le> proposalCount\<close>) and every block height,
  \<open>state\<close> returns the first matching case of the precedence order Canceled, Executed,
  Pending (\<open>bn \<le> startBlock\<close>), Active (\<open>bn \<le> endBlock\<close>), Defeated
  (\<open>forVotes \<le> againstVotes\<close> or \<open>forVotes < quorum\<close>), and Succeeded otherwise. In
  particular a proposal that is neither canceled nor executed, whose window has closed, with
  more votes for than against but fewer than the quorum, is Defeated.
\<close>

theorem state_first_matching_case:
  assumes "0 < pid" and "pid \<le> proposalCount g"
  shows "state g bn pid = Inr (state_spec (proposals g pid) bn) \<and>
         (\<not> canceled (proposals g pid) \<and> \<not> executed (proposals g pid) \<and>
          startBlock (proposals g pid) \<le> endBlock (proposals g pid) \<and>
          endBlock (proposals g pid) < bn \<and>
          againstVotes (proposals g pid) < forVotes (proposals g pid) \<and>
          forVotes (proposals g pid) < quorum (proposals g pid)
          \<longrightarrow> state g bn pid = Inr Defeated)"
  using assms by (simp add: state_valid state_spec_def first_match_def)

lemma scenario_voted_eq:
  "scenario_voted = \<lparr>gov_owner = 1, stakingContract = 7, proposalCount = 1, votingDelay = 1,
     votingPeriod = 10, proposalThreshold = 1000 * 10 ^ 18, quorumPercentage = 10,
     proposals = (\<lambda>_. empty_proposal)(1 := empty_proposal\<lparr>proposal_id := 1, proposer := 1,
       title := ''Test'', description := ''Test'', startBlock := 1, endBlock := 11,
       forVotes := 5000000 * 10 ^ 18, quorum := 10000000 * 10 ^ 18,
       receipts := (\<lambda>_. empty_receipt)
         (6 := \<lparr>hasVoted = True, support = For, votes = 5000000 * 10 ^ 18\<rparr>)\<rparr>)\<rparr>"
  by (simp add: scenario_voted_def scenario_vote_def gov_step_def castVote_def
      castVote_internal_def state_def getVotingPower_def scenario_gov_eq scenario_token_eq
      empty_proposal_def empty_receipt_def arith_defs Let_def)

theorem state_first_matching_case_witness:
  "quorum (proposals scenario_voted 1) = 10000000 * 10 ^ 18 \<and>
   forVotes (proposals scenario_voted 1) = 5000000 * 10 ^ 18 \<and>
   againstVotes (proposals scenario_voted 1) = 0 \<and>
   state scenario_voted 12 1 = Inr Defeated"
  using state_first_matching_case [of 1 scenario_voted 12]
  by (simp add: scenario_voted_eq empty_proposal_def state_spec_def first_match_def)

lemma executed_only_from_Succeeded:
  assumes "0 < pid" and "pid \<le> proposalCount g"
    and "state (gov_step g c) (call_block c) pid = Inr Executed"
  shows "state g (call_block c) pid = Inr Executed \<or> state g (call_block c) pid = Inr Succeeded"
proof (cases "gov_exec g (call_block c) (call_token c) (call_sender c) (call_op c)")
  case (Inl e)
  with assms(3) show ?thesis by (simp add: gov_step_def)
next
  case (Inr g')
  then have g': "gov_step g c = g'" by (simp add: gov_step_def)
  show ?thesis
  proof (cases "call_op c")
    case (Propose ttl descr)
    with Inr obtain n where "propose g (call_token c) (call_block c) (call_sender c) ttl descr = Inr (g', n)"
      by (auto simp: bindE_Inr_iff)
    from propose_effect(1,2) [OF this] assms show ?thesis
      by (simp add: g' state_Inr_iff)
  next
    case (CastVote p vt)
    with Inr castVote_effect [of g "call_token c" "call_block c" "call_sender c" p vt g' pid] assms
    show ?thesis by (simp add: g' state_Inr_iff)
  next
    case (Execute p)
    with Inr have s: "state_spec (proposals g p) (call_block c) = Succeeded"
      and e: "g' = g\<lparr>proposals := (proposals g)(p := (proposals g p)\<lparr>executed := True\<rparr>)\<rparr>"
      by (auto simp: execute_def bindE_Inr_iff require_Inr_iff state_Inr_iff)
    with assms show ?thesis
      by (cases "p = pid") (simp_all add: g' state_Inr_iff)
  next
    case (Cancel p)
    with Inr have e: "g' = g\<lparr>proposals := (proposals g)(p := (proposals g p)\<lparr>canceled := True\<rparr>)\<rparr>"
      by (auto simp: cancel_def bindE_Inr_iff require_Inr_iff state_Inr_iff Let_def)
    with assms show ?thesis
      by (cases "p = pid") (simp_all add: g' state_Inr_iff state_spec_canceled_upd)
  next
    case (SetVotingParameters vd vp pt qp)
    with Inr setVotingParameters_effect [of g "call_sender c" vd vp pt qp g'] assms
    show ?thesis by (simp add: g' state_Inr_iff)
  next
    case (SetStakingContract sc)
    with Inr setStakingContract_effect [of g "call_sender c" sc g'] assms
    show ?thesis by (simp add: g' state_Inr_iff)
  next
    case (GovTransferOwnership a)
    with Inr ALOGovernance_ownership_effect(1) [of g "call_sender c" a g'] assms
    show ?thesis by (simp add: g' state_Inr_iff)
  next
    case GovRenounceOwnership
    with Inr ALOGovernance_ownership_effect(2) [of g "call_sender c" g'] assms
    show ?thesis by (simp add: g' state_Inr_iff)
  qed
qed

text \<open>
  C9: take any existing proposal, any list of calls (propose, castVote, execute, cancel and
  the owner's functions, each with its caller, its block height and the token ledger of the
  moment; a call that reverts leaves the storage as it was) whose block heights do not
  decrease. The state observed before the calls and the state observed after them are related
  by \<open>forward\<close>, the reflexive and transitive closure of the edges Pending to Active, Active to
  Succeeded or Defeated, Succeeded to Executed, and any state but Executed to Canceled
  (\<open>forward_is_closure\<close>); the relation is antisymmetric, so no run ever leads back. A single
  call that leaves the proposal Executed found it Executed or Succeeded.
\<close>

theorem proposal_state_only_moves_forward:
  assumes "0 < pid" and "pid \<le> proposalCount g" and "sorted (bn # map call_block cs)"
  shows "(\<exists>x y. state g bn pid = Inr x \<and>
           state (gov_run g cs) (last (bn # map call_block cs)) pid = Inr y \<and>
           forward x y \<and> (forward y x \<longrightarrow> x = y)) \<and>
         (\<forall>c. state (gov_step g c) (call_block c) pid = Inr Executed \<longrightarrow>
           state g (call_block c) pid = Inr Executed \<or>
           state g (call_block c) pid = Inr Succeeded)"
proof -
  from gov_run_forward [OF assms(2,3)]
  have cnt: "pid \<le> proposalCount (gov_run g cs)"
    and fw: "forward (state_spec (proposals g pid) bn)
           (state_spec (proposals (gov_run g cs) pid) (last (bn # map call_block cs)))"
    by auto
  from assms(1,2) cnt fw executed_only_from_Succeeded [OF assms(1,2)] show ?thesis
    by (auto simp: state_Inr_iff dest: forward_antisym)
qed

lemma scenario_passed_eq:
  "scenario_passed = \<lparr>gov_owner = 1, stakingContract = 7, proposalCount = 1, votingDelay = 1,
     votingPeriod = 10, proposalThreshold = 1000 * 10 ^ 18, quorumPercentage = 10,
     proposals = (\<lambda>_. empty_proposal)(1 := empty_proposal\<lparr>proposal_id := 1, proposer := 1,
       title := ''Test'', description := ''Test'', startBlock := 1, endBlock := 11,
       forVotes := 95000000 * 10 ^ 18, quorum := 10000000 * 10 ^ 18, executed := True,
       receipts := (\<lambda>_. empty_receipt)
         (1 := \<lparr>hasVoted = True, support = For, votes = 95000000 * 10 ^ 18\<rparr>)\<rparr>)\<rparr>"
  by (simp add: scenario_passed_def scenario_vote_def scenario_execute_def gov_step_def
      castVote_def castVote_internal_def execute_def state_def getVotingPower_def scenario_gov_eq
      scenario_token_eq empty_proposal_def empty_receipt_def arith_defs Let_def)

theorem proposal_state_only_moves_forward_witness:
  "state scenario_gov 0 1 = Inr Pending \<and> state scenario_passed 12 1 = Inr Executed \<and>
   forward Pending Executed"
proof -
  let ?cs = "[scenario_vote 1 2 For, scenario_execute 12]"
  have run: "gov_run scenario_gov ?cs = scenario_passed"
    by (simp only: scenario_passed_def)
  have a: "state scenario_gov 0 1 = Inr Pending"
    by (simp add: scenario_gov_eq state_def require_def empty_proposal_def)
  have b: "state scenario_passed 12 1 = Inr Executed"
    by (simp add: scenario_passed_eq state_def require_def empty_proposal_def)
  have srt: "sorted (0 # map call_block ?cs)"
    by (simp add: scenario_vote_def scenario_execute_def)
  have lst: "last (0 # map call_block ?cs) = 12"
    by (simp add: scenario_vote_def scenario_execute_def)
  have v: "0 < (1::nat)" "1 \<le> proposalCount scenario_gov"
    by (simp_all add: scenario_gov_eq)
  from proposal_state_only_moves_forward [OF v srt] obtain x y where
    "state scenario_gov 0 1 = Inr x"
    "state (gov_run scenario_gov ?cs) (last (0 # map call_block ?cs)) 1 = Inr y"
    "forward x y"
    by blast
  with a b have "forward Pending Executed"
    by (simp only: run lst sum.inject)
  with a b show ?thesis by simp
qed

subsection \<open>Receipts are written once\<close>

lemma gov_exec_keeps_receipt:
  assumes "gov_exec g bn tok sender op = Inr g'"
    and "hasVoted (receipts (proposals g pid) voter)"
  shows "receipts (proposals g' pid) voter = receipts (proposals g pid) voter"
proof (cases op)
  case (Propose ttl descr)
  with assms(1) obtain n where "propose g tok bn sender ttl descr = Inr (g', n)"
    by (auto simp: bindE_Inr_iff)
  from propose_effect(3) [OF this] show ?thesis by simp
next
  case (CastVote p vt)
  with assms(1) have "castVote g tok bn sender p vt = Inr g'" by simp
  from castVote_shape [OF this] assms(2) show ?thesis by auto
next
  case (Execute p)
  with assms(1) have "g' = g\<lparr>proposals := (proposals g)(p := (proposals g p)\<lparr>executed := True\<rparr>)\<rparr>"
    by (auto simp: execute_def bindE_Inr_iff require_Inr_iff)
  then show ?thesis by simp
next
  case (Cancel p)
  with assms(1) have "g' = g\<lparr>proposals := (proposals g)(p := (proposals g p)\<lparr>canceled := True\<rparr>)\<rparr>"
    by (auto simp: cancel_def bindE_Inr_iff require_Inr_iff Let_def)
  then show ?thesis by simp
next
  case (SetVotingParameters vd vp pt qp)
  with assms(1) setVotingParameters_effect [of g sender vd vp pt qp g'] show ?thesis by simp
next
  case (SetStakingContract sc)
  with assms(1) setStakingContract_effect [of g sender sc g'] show ?thesis by simp
next
  case (GovTransferOwnership a)
  with assms(1) ALOGovernance_ownership_effect(1) [of g sender a g'] show ?thesis by simp
next
  case GovRenounceOwnership
  with assms(1) ALOGovernance_ownership_effect(2) [of g sender g'] show ?thesis by simp
qed

lemma gov_exec_count_mono:
  assumes "gov_exec g bn tok sender op = Inr g'"
  shows "proposalCount g \<le> proposalCount g'"
  using gov_exec_forward [OF assms, of 0] by simp

lemma gov_step_keeps_receipt:
  assumes "hasVoted (receipts (proposals g pid) voter)"
  shows "receipts (proposals (gov_step g c) pid) voter = receipts (proposals g pid) voter \<and>
         proposalCount g \<le> proposalCount (gov_step g c)"
proof (cases "gov_exec g (call_block c) (call_token c) (call_sender c) (call_op c)")
  case (Inl e)
  then show ?thesis by (simp add: gov_step_def)
next
  case (Inr g')
  from gov_exec_keeps_receipt [OF Inr assms] gov_exec_count_mono [OF Inr] Inr
  show ?thesis by (simp add: gov_step_def)
qed

lemma gov_run_keeps_receipt:
  "hasVoted (receipts (proposals g pid) voter) \<Longrightarrow>
   receipts (proposals (gov_run g cs) pid) voter = receipts (proposals g pid) voter \<and>
   proposalCount g \<le> proposalCount (gov_run g cs)"
proof (induction cs arbitrary: g)
  case Nil
  then show ?case by simp
next
  case (Cons c cs)
  from gov_step_keeps_receipt [OF Cons.prems, of c]
  have r: "receipts (proposals (gov_step g c) pid) voter = receipts (proposals g pid) voter"
    and n: "proposalCount g \<le> proposalCount (gov_step g c)" by auto
  from r Cons.prems have "hasVoted (receipts (proposals (gov_step g c) pid) voter)" by simp
  from Cons.IH [OF this] r n show ?case by simp
qed

lemma castVote_rejected:
  assumes "0 < pid" and "pid \<le> proposalCount g" and "hasVoted (receipts (proposals g pid) voter)"
  shows "castVote g tok bn voter pid vt =
         Inl (Revert (if state g bn pid = Inr Active then ''Already voted'' else ''Voting is closed''))"
  using assms
  by (simp add: castVote_def castVote_internal_def state_valid require_def Let_def)

text \<open>
  C8, as amended: once a vote of \<open>voter\<close> on proposal \<open>pid\<close> has succeeded, then after any
  further list of calls the receipt is still the one that vote recorded, and a second vote of
  the same address on the same proposal is rejected whatever vote type, block height and
  voting power it comes with: with \<^verbatim>\<open>Already voted\<close> while the proposal is Active, and with
  \<^verbatim>\<open>Voting is closed\<close>, the check that comes first in \<^verbatim>\<open>_castVote\<close>, in every other state.
\<close>

theorem second_vote_always_rejected:
  assumes "castVote g tok bn voter pid vt = Inr g1"
  shows "receipts (proposals (gov_run g1 cs) pid) voter =
           \<lparr>hasVoted = True, support = vt, votes = getVotingPower tok voter\<rparr> \<and>
         castVote (gov_run g1 cs) tok' bn' voter pid vt' =
           Inl (Revert (if state (gov_run g1 cs) bn' pid = Inr Active
                        then ''Already voted'' else ''Voting is closed''))"
proof -
  from castVote_shape [OF assms] obtain P where
    g1: "g1 = g\<lparr>proposals := (proposals g)(pid := P)\<rparr>" and
    v: "0 < pid" "pid \<le> proposalCount g" and
    r: "receipts P = (receipts (proposals g pid))
               (voter := \<lparr>hasVoted = True, support = vt, votes = getVotingPower tok voter\<rparr>)"
    by blast
  from g1 r have r1: "receipts (proposals g1 pid) voter =
      \<lparr>hasVoted = True, support = vt, votes = getVotingPower tok voter\<rparr>" by simp
  then have h1: "hasVoted (receipts (proposals g1 pid) voter)" by simp
  from gov_run_keeps_receipt [OF h1, of cs]
  have keep: "receipts (proposals (gov_run g1 cs) pid) voter = receipts (proposals g1 pid) voter"
    and cnt: "proposalCount g1 \<le> proposalCount (gov_run g1 cs)" by auto
  from v g1 cnt have v': "pid \<le> proposalCount (gov_run g1 cs)" by simp
  from keep h1 have h': "hasVoted (receipts (proposals (gov_run g1 cs) pid) voter)" by simp
  from castVote_rejected [OF v(1) v' h'] keep r1 show ?thesis by simp
qed

theorem second_vote_always_rejected_witness:
  "castVote scenario_gov scenario_token 2 6 1 For = Inr scenario_voted \<and>
   receipts (proposals scenario_voted 1) 6 =
     \<lparr>hasVoted = True, support = For, votes = 5000000 * 10 ^ 18\<rparr> \<and>
   castVote scenario_voted scenario_token 3 6 1 Against = Inl (Revert ''Already voted'')"
proof -
  have first: "castVote scenario_gov scenario_token 2 6 1 For = Inr scenario_voted"
    unfolding scenario_voted_eq
    by (simp add: castVote_def castVote_internal_def state_def getVotingPower_def scenario_gov_eq
      scenario_token_eq empty_proposal_def empty_receipt_def arith_defs Let_def)
  from second_vote_always_rejected [OF first, of "[]" scenario_token 3 Against] first
  show ?thesis
    by (simp add: getVotingPower_def scenario_token_eq)
       (simp add: scenario_voted_eq state_def require_def empty_proposal_def)
qed

theorem second_vote_after_close_counterexample:
  "castVote scenario_gov scenario_token 2 6 1 For = Inr scenario_voted \<and>
   hasVoted (receipts (proposals scenario_voted 1) 6) \<and>
   castVote scenario_voted scenario_token 12 6 1 Against = Inl (Revert ''Voting is closed'') \<and>
   castVote scenario_voted scenario_token 12 6 1 Against \<noteq> Inl (Revert ''Already voted'')"
proof -
  have first: "castVote scenario_gov scenario_token 2 6 1 For = Inr scenario_voted"
    unfolding scenario_voted_eq
    by (simp add: castVote_def castVote_internal_def state_def getVotingPower_def scenario_gov_eq
      scenario_token_eq empty_proposal_def empty_receipt_def arith_defs Let_def)
  have second: "castVote scenario_voted scenario_token 12 6 1 Against = Inl (Revert ''Voting is closed'')"
    by (simp add: castVote_def castVote_internal_def state_def scenario_voted_eq
      empty_proposal_def arith_defs Let_def)
  from first second show ?thesis
    by (simp add: scenario_voted_eq)
qed

section \<open>Properties of the token ledger\<close>

lemma sum_fun_upd:
  fixes f :: "address \<Rightarrow> nat"
  shows "sum (f(x := v)) UNIV + f x = sum f UNIV + v"
proof -
  have a: "sum (f(x := v)) UNIV = v + sum (f(x := v)) (UNIV - {x})"
    using sum.remove [of UNIV x "f(x := v)"] by simp
  have b: "sum f UNIV = f x + sum f (UNIV - {x})"
    using sum.remove [of UNIV x f] by simp
  have c: "sum (f(x := v)) (UNIV - {x}) = sum f (UNIV - {x})"
    by (rule sum.cong) auto
  from a b c show ?thesis by simp
qed

lemma balance_le_total: "balances s a \<le> total_balance s"
  unfolding total_balance_def by (rule member_le_sum) simp_all

lemma two_balances_le_total:
  assumes "a \<noteq> b"
  shows "balances s a + balances s b \<le> total_balance s"
proof -
  have "sum (balances s) {a, b} \<le> sum (balances s) UNIV"
    by (rule sum_mono2) simp_all
  with assms show ?thesis by (simp add: total_balance_def)
qed

lemma sum_ledger_move:
  assumes "v \<le> B from"
  shows "sum (ledger_move B from to v) UNIV = sum B UNIV"
proof -
  let ?B1 = "B(from := B from - v)"
  have 1: "sum ?B1 UNIV + B from = sum B UNIV + (B from - v)" by (rule sum_fun_upd)
  have 2: "sum (?B1(to := ?B1 to + v)) UNIV + ?B1 to = sum ?B1 UNIV + (?B1 to + v)"
    by (rule sum_fun_upd)
  from 1 2 assms show ?thesis unfolding ledger_move_def by linarith
qed

lemma ledger_move_zero: "ledger_move B from to 0 = B"
  by (auto simp: ledger_move_def)

lemma ERC20_update_move:
  assumes "ERC20_update s from to v = Inr s'" and "from \<noteq> 0" and "to \<noteq> 0"
    and "total_balance s \<le> MAX_UINT256"
  shows "s' = s\<lparr>balances := ledger_move (balances s) from to v\<rparr> \<and> v \<le> balances s from"
proof -
  from assms(1,2,3) have le: "v \<le> balances s from"
    and s': "s' = s\<lparr>balances := (balances s)(from := balances s from - v,
        to := unchecked_add (((balances s)(from := balances s from - v)) to) v)\<rparr>"
    by (auto simp: ERC20_update_def split: if_splits)
  have "((balances s)(from := balances s from - v)) to + v \<le> MAX_UINT256"
  proof (cases "from = to")
    case True
    with le balance_le_total [of s "from"] assms(4) show ?thesis by simp
  next
    case False
    with le two_balances_le_total [of "from" "to" s] assms(4) show ?thesis by simp
  qed
  then have "unchecked_add (((balances s)(from := balances s from - v)) to) v =
      ((balances s)(from := balances s from - v)) to + v"
    by (simp add: unchecked_add_def MAX_UINT256_def)
  with s' le show ?thesis by (simp add: ledger_move_def)
qed

lemma fee_step_move:
  assumes "(if fee > 0 then ERC20_update s from w fee else Inr s) = Inr s1"
    and "from \<noteq> 0" and "w \<noteq> 0" and "total_balance s \<le> MAX_UINT256"
  shows "s1 = s\<lparr>balances := ledger_move (balances s) from w fee\<rparr> \<and> fee \<le> balances s from"
proof (cases "fee > 0")
  case True
  with assms ERC20_update_move [of s "from" w fee s1] show ?thesis by simp
next
  case False
  with assms show ?thesis by (simp add: ledger_move_zero)
qed

lemma total_balance_move:
  "v \<le> balances s from \<Longrightarrow>
   total_balance (s\<lparr>balances := ledger_move (balances s) from to v\<rparr>) = total_balance s"
  by (simp add: total_balance_def sum_ledger_move)

lemma checked_mul_Inr_iff: "checked_mul a b = Inr c \<longleftrightarrow> c = a * b \<and> a * b \<le> MAX_UINT256"
  by (auto simp: checked_mul_def)

lemma checked_sub_Inr_iff: "checked_sub a b = Inr c \<longleftrightarrow> c = a - b \<and> b \<le> a"
  by (auto simp: checked_sub_def)

lemma ALOToken_update_plain:
  assumes "ALOToken_update s from to amt = Inr s'" and "from \<noteq> 0" and "to \<noteq> 0"
    and "isExcludedFromFee s from \<or> isExcludedFromFee s to \<or> amt = 0"
    and "total_balance s \<le> MAX_UINT256"
  shows "s' = s\<lparr>balances := ledger_move (balances s) from to amt\<rparr> \<and> amt \<le> balances s from"
proof -
  from assms(1-4) have "ERC20_update s from to amt = Inr s'"
    by (auto simp: ALOToken_update_def Let_def split: if_splits)
  from ERC20_update_move [OF this assms(2,3,5)] show ?thesis .
qed

lemma ALOToken_update_fee:
  assumes upd: "ALOToken_update s from to amt = Inr s'" and nz: "from \<noteq> 0" "to \<noteq> 0"
    and fee: "\<not> isExcludedFromFee s from" "\<not> isExcludedFromFee s to" "amt > 0"
    and w: "buybackWallet s \<noteq> 0" "liquidityWallet s \<noteq> 0" "treasuryWallet s \<noteq> 0"
    and tot: "total_balance s \<le> MAX_UINT256"
    and f: "f1 = amt div 100" "f2 = amt div 200" "f3 = amt div 200"
  shows "s' = s\<lparr>balances :=
              ledger_move (ledger_move (ledger_move (ledger_move (balances s)
                from (buybackWallet s) f1) from (liquidityWallet s) f2)
                from (treasuryWallet s) f3) from to (amt - (f1 + f2 + f3)),
            totalFees := totalFees s + (f1 + f2 + f3)\<rparr> \<and>
         total_balance s' = total_balance s \<and>
         (from \<noteq> buybackWallet s \<and> from \<noteq> liquidityWallet s \<and> from \<noteq> treasuryWallet s
            \<longrightarrow> amt \<le> balances s from)"
proof -
  from upd nz fee f obtain s1 s2 s3 where
    1: "(if f1 > 0 then ERC20_update s from (buybackWallet s) f1 else Inr s) = Inr s1" and
    2: "(if f2 > 0 then ERC20_update s1 from (liquidityWallet s1) f2 else Inr s1) = Inr s2" and
    3: "(if f3 > 0 then ERC20_update s2 from (treasuryWallet s2) f3 else Inr s2) = Inr s3" and
    4: "ERC20_update (s3\<lparr>totalFees := totalFees s3 + (f1 + f2 + f3)\<rparr>) from to
          (amt - (f1 + f2 + f3)) = Inr s'"
    by (auto simp: ALOToken_update_def Let_def bindE_Inr_iff checked_mul_Inr_iff
        checked_add_Inr_iff checked_sub_Inr_iff BUYBACK_FEE_def LIQUIDITY_FEE_def
        TREASURY_FEE_def FEE_DENOMINATOR_def cong: if_cong)
  from fee_step_move [OF 1 nz(1) w(1) tot]
  have s1: "s1 = s\<lparr>balances := ledger_move (balances s) from (buybackWallet s) f1\<rparr>"
    and l1: "f1 \<le> balances s from" by auto
  from s1 l1 have t1: "total_balance s1 = total_balance s"
    by (simp add: total_balance_move)
  from s1 w have w1: "liquidityWallet s1 = liquidityWallet s" "liquidityWallet s1 \<noteq> 0" by simp_all
  from fee_step_move [OF 2 nz(1) w1(2)] t1 tot
  have s2: "s2 = s1\<lparr>balances := ledger_move (balances s1) from (liquidityWallet s1) f2\<rparr>"
    and l2: "f2 \<le> balances s1 from" by auto
  from s2 l2 have t2: "total_balance s2 = total_balance s1"
    by (simp add: total_balance_move)
  from s1 s2 w have w2: "treasuryWallet s2 = treasuryWallet s" "treasuryWallet s2 \<noteq> 0" by simp_all
  from fee_step_move [OF 3 nz(1) w2(2)] t1 t2 tot
  have s3: "s3 = s2\<lparr>balances := ledger_move (balances s2) from (treasuryWallet s2) f3\<rparr>"
    and l3: "f3 \<le> balances s2 from" by auto
  from s3 l3 have t3: "total_balance s3 = total_balance s2"
    by (simp add: total_balance_move)
  let ?s4 = "s3\<lparr>totalFees := totalFees s3 + (f1 + f2 + f3)\<rparr>"
  have t4: "total_balance ?s4 = total_balance s3" by (simp add: total_balance_def)
  with t1 t2 t3 tot have "total_balance ?s4 \<le> MAX_UINT256" by simp
  from ERC20_update_move [OF 4 nz this]
  have s': "s' = ?s4\<lparr>balances := ledger_move (balances ?s4) from to (amt - (f1 + f2 + f3))\<rparr>"
    and l4: "amt - (f1 + f2 + f3) \<le> balances ?s4 from" by auto
  from s' l4 have t5: "total_balance s' = total_balance ?s4"
    using total_balance_move [of "amt - (f1 + f2 + f3)" ?s4 "from" "to"] by simp
  have "amt \<le> balances s from"
    if d: "from \<noteq> buybackWallet s" "from \<noteq> liquidityWallet s" "from \<noteq> treasuryWallet s"
  proof -
    from d s1 have b1: "balances s1 from = balances s from - f1"
      by (simp add: ledger_move_def)
    from d s1 s2 b1 have b2: "balances s2 from = balances s from - f1 - f2"
      by (simp add: ledger_move_def)
    from d s1 s2 s3 b2 have b3: "balances ?s4 from = balances s from - f1 - f2 - f3"
      by (simp add: ledger_move_def)
    from l1 l2 l3 l4 b1 b2 b3 show ?thesis by linarith
  qed
  with s' s3 s2 s1 w1 w2 t1 t2 t3 t4 t5 show ?thesis by simp
qed

lemma INITIAL_SUPPLY_le_MAX: "INITIAL_SUPPLY \<le> MAX_UINT256"
  by (simp add: INITIAL_SUPPLY_def MAX_UINT256_def)

lemma token_inv_total_le: "token_inv s \<Longrightarrow> total_balance s \<le> MAX_UINT256"
  using INITIAL_SUPPLY_le_MAX by (simp add: token_inv_def)

lemma token_inv_allowances [simp]: "token_inv (s\<lparr>allowances := A\<rparr>) = token_inv s"
  by (simp add: token_inv_def total_balance_def)

lemma ALOToken_update_inv:
  assumes "ALOToken_update s from to amt = Inr s'" and "from \<noteq> 0" and "to \<noteq> 0"
    and "token_inv s"
  shows "token_inv s'"
proof (cases "isExcludedFromFee s from \<or> isExcludedFromFee s to \<or> amt = 0")
  case True
  from ALOToken_update_plain [OF assms(1-3) True token_inv_total_le [OF assms(4)]]
  have "s' = s\<lparr>balances := ledger_move (balances s) from to amt\<rparr>"
    and "amt \<le> balances s from" by auto
  with assms(4) total_balance_move [of amt s "from" "to"] show ?thesis
    by (simp add: token_inv_def)
next
  case False
  then have fee: "\<not> isExcludedFromFee s from" "\<not> isExcludedFromFee s to" "amt > 0" by auto
  from assms(4) have w: "buybackWallet s \<noteq> 0" "liquidityWallet s \<noteq> 0" "treasuryWallet s \<noteq> 0"
    by (simp_all add: token_inv_def)
  from ALOToken_update_fee [OF assms(1-3) fee w token_inv_total_le [OF assms(4)] refl refl refl]
  obtain B F where e: "s' = s\<lparr>balances := B, totalFees := F\<rparr>"
    and t: "total_balance s' = total_balance s" by blast
  from e have "totalBurned s' = totalBurned s" "buybackWallet s' = buybackWallet s"
    "liquidityWallet s' = liquidityWallet s" "treasuryWallet s' = treasuryWallet s"
    by simp_all
  with t assms(4) show ?thesis by (simp add: token_inv_def)
qed

lemma ERC20_spendAllowance_shape:
  assumes "ERC20_spendAllowance s owner spender v = Inr s'"
  shows "\<exists>A. s' = s\<lparr>allowances := A\<rparr>"
proof (cases "allowances s owner spender < MAX_UINT256")
  case True
  with assms have "s' = s\<lparr>allowances := (allowances s)
      (owner := (allowances s owner)(spender := allowances s owner spender - v))\<rparr>"
    by (auto simp: ERC20_spendAllowance_def ERC20_approve_def Let_def split: if_splits)
  then show ?thesis by blast
next
  case False
  with assms have "s' = s" by (simp add: ERC20_spendAllowance_def Let_def)
  then have "s' = s\<lparr>allowances := allowances s\<rparr>" by simp
  then show ?thesis by blast
qed

lemma ERC20_transfer_internal_inv:
  assumes "ERC20_transfer_internal s from to v = Inr s'" and "token_inv s"
  shows "token_inv s'"
proof -
  from assms(1) have nz: "from \<noteq> 0" "to \<noteq> 0" and u: "ALOToken_update s from to v = Inr s'"
    by (auto simp: ERC20_transfer_internal_def split: if_splits)
  from ALOToken_update_inv [OF u nz assms(2)] show ?thesis .
qed

lemma ERC20_burn_shape:
  assumes "ERC20_burn s account v = Inr s'"
  shows "s' = s\<lparr>balances := (balances s)(account := balances s account - v),
                 totalSupply := unchecked_sub (totalSupply s) v\<rparr> \<and> v \<le> balances s account"
  using assms
  by (auto simp: ERC20_burn_def ALOToken_update_def ERC20_update_def split: if_splits)

lemma burn_step_inv:
  assumes "ERC20_burn s account v = Inr s1" and "checked_add (totalBurned s1) v = Inr tb"
    and "token_inv s"
  shows "token_inv (s1\<lparr>totalBurned := tb\<rparr>)"
proof -
  from ERC20_burn_shape [OF assms(1)]
  have s1: "s1 = s\<lparr>balances := (balances s)(account := balances s account - v),
                 totalSupply := unchecked_sub (totalSupply s) v\<rparr>"
    and le: "v \<le> balances s account" by auto
  from assms(2) s1 have tb: "tb = totalBurned s + v" by (simp add: checked_add_Inr_iff)
  have "total_balance s1 + balances s account = total_balance s + (balances s account - v)"
    using sum_fun_upd [of "balances s" account "balances s account - v"]
    by (simp add: s1 total_balance_def)
  with le have "total_balance s1 + v = total_balance s" by simp
  with assms(3) tb s1 show ?thesis by (simp add: token_inv_def total_balance_def)
qed

lemma token_exec_inv:
  assumes "token_exec s sender op = Inr s'" and "token_inv s"
  shows "token_inv s'"
proof (cases op)
  case (Transfer to v)
  with assms show ?thesis by (auto simp: transfer_def dest: ERC20_transfer_internal_inv)
next
  case (TransferFrom "from" to v)
  with assms(1) obtain s1 where 1: "ERC20_spendAllowance s from sender v = Inr s1"
    and 2: "ERC20_transfer_internal s1 from to v = Inr s'"
    by (auto simp: transferFrom_def bindE_Inr_iff)
  from ERC20_spendAllowance_shape [OF 1] assms(2) have "token_inv s1" by auto
  from ERC20_transfer_internal_inv [OF 2 this] show ?thesis .
next
  case (Approve spender v)
  with assms show ?thesis
    by (auto simp: approve_def ERC20_approve_def split: if_splits)
next
  case (Burn v)
  with assms(1) obtain s1 tb where "ERC20_burn s sender v = Inr s1"
    "checked_add (totalBurned s1) v = Inr tb" "s' = s1\<lparr>totalBurned := tb\<rparr>"
    by (auto simp: burn_def bindE_Inr_iff)
  with burn_step_inv [of s sender v s1 tb] assms(2) show ?thesis by simp
next
  case (BurnFrom account v)
  with assms(1) obtain s0 s1 tb where 0: "ERC20_spendAllowance s account sender v = Inr s0"
    and 1: "ERC20_burn s0 account v = Inr s1"
    "checked_add (totalBurned s1) v = Inr tb" "s' = s1\<lparr>totalBurned := tb\<rparr>"
    by (auto simp: burnFrom_def bindE_Inr_iff)
  from ERC20_spendAllowance_shape [OF 0] assms(2) have "token_inv s0" by auto
  with burn_step_inv [of s0 account v s1 tb] 1 show ?thesis by simp
next
  case (SetBuybackWallet w)
  with assms show ?thesis
    by (auto simp: setBuybackWallet_def bindE_Inr_iff require_Inr_iff token_inv_def total_balance_def)
next
  case (SetLiquidityWallet w)
  with assms show ?thesis
    by (auto simp: setLiquidityWallet_def bindE_Inr_iff require_Inr_iff token_inv_def total_balance_def)
next
  case (SetTreasuryWallet w)
  with assms show ?thesis
    by (auto simp: setTreasuryWallet_def bindE_Inr_iff require_Inr_iff token_inv_def total_balance_def)
next
  case (SetExcludeFromFee a e)
  with assms show ?thesis
    by (auto simp: setExcludeFromFee_def bindE_Inr_iff require_Inr_iff token_inv_def total_balance_def)
next
  case (TransferOwnership a)
  with assms show ?thesis
    by (auto simp: ALOToken_transferOwnership_def bindE_Inr_iff token_inv_def total_balance_def
        split: if_splits)
next
  case RenounceOwnership
  with assms show ?thesis
    by (auto simp: ALOToken_renounceOwnership_def bindE_Inr_iff token_inv_def total_balance_def)
qed

lemma token_step_inv: "token_inv s \<Longrightarrow> token_inv (token_step s c)"
  by (cases "token_exec s (fst c) (snd c)") (auto simp: token_step_def dest: token_exec_inv)

lemma token_run_inv: "token_inv s \<Longrightarrow> token_inv (token_run s cs)"
  by (induction cs arbitrary: s) (auto intro: token_step_inv)

lemma sum_single:
  fixes v :: nat
  shows "sum ((\<lambda>_. 0)(x := v)) (UNIV :: address set) = v"
  using sum_fun_upd [of "\<lambda>_. 0" x v] by simp

lemma ALOToken_constructor_inv:
  assumes "ALOToken_constructor sender this bw lw tw = Inr s0"
  shows "token_inv s0"
proof -
  from assms have "sender \<noteq> 0" "bw \<noteq> 0" "lw \<noteq> 0" "tw \<noteq> 0"
    by (auto simp: ALOToken_constructor_def bindE_Inr_iff require_Inr_iff split: if_splits)
  with assms have "s0 = empty_token\<lparr>token_owner := sender, buybackWallet := bw,
      liquidityWallet := lw, treasuryWallet := tw, totalSupply := INITIAL_SUPPLY,
      balances := (\<lambda>_. 0)(sender := INITIAL_SUPPLY),
      isExcludedFromFee := (\<lambda>_. False)(sender := True, this := True)\<rparr>"
    by (simp add: ALOToken_constructor_def require_def ERC20_mint_def ALOToken_update_def
        ERC20_update_def empty_token_def decimals_def INITIAL_SUPPLY_def arith_defs Let_def)
  with \<open>bw \<noteq> 0\<close> \<open>lw \<noteq> 0\<close> \<open>tw \<noteq> 0\<close> show ?thesis
    by (simp add: token_inv_def total_balance_def empty_token_def sum_single)
qed

text \<open>
  C4: start from the state the constructor leaves (the whole supply of 100,000,000 tokens of
  \<open>10^18\<close> units minted to the deployer) and apply any list of calls of the token's external
  functions (transfer, transferFrom, approve, burn, burnFrom and the owner's functions, each by
  any sender; a call that reverts leaves the storage as it was). In the state reached, the sum
  of all balances plus \<open>totalBurned\<close> is the minted supply. Every prefix of a list is a list,
  so this holds in every state on the way.
\<close>

theorem supply_conserved:
  assumes "ALOToken_constructor sender this bw lw tw = Inr s0"
  shows "total_balance (token_run s0 cs) + totalBurned (token_run s0 cs) = 100000000 * 10 ^ 18"
  using token_run_inv [OF ALOToken_constructor_inv [OF assms], of cs]
  by (simp add: token_inv_def INITIAL_SUPPLY_def)

lemma scenario_genesis_eq:
  "scenario_genesis = \<lparr>balances = (\<lambda>_. 0)(1 := 100000000 * 10 ^ 18),
     allowances = (\<lambda>_ _. 0), totalSupply = 100000000 * 10 ^ 18,
     token_owner = 1, buybackWallet = 3, liquidityWallet = 4, treasuryWallet = 5,
     totalBurned = 0, totalFees = 0, isExcludedFromFee = (\<lambda>_. False)(1 := True, 2 := True)\<rparr>"
  by (simp add: scenario_genesis_def token_defs arith_defs Let_def)

lemma scenario_genesis_constructed: "ALOToken_constructor 1 2 3 4 5 = Inr scenario_genesis"
  unfolding scenario_genesis_eq by (simp add: token_defs arith_defs Let_def)

lemma scenario_funded_eq:
  "scenario_funded = \<lparr>balances = (\<lambda>_. 0)(1 := 100000000 * 10 ^ 18 - 10000, 6 := 10000),
     allowances = (\<lambda>_ _. 0), totalSupply = 100000000 * 10 ^ 18,
     token_owner = 1, buybackWallet = 3, liquidityWallet = 4, treasuryWallet = 5,
     totalBurned = 0, totalFees = 0, isExcludedFromFee = (\<lambda>_. False)(1 := True, 2 := True)\<rparr>"
  by (simp add: scenario_funded_def token_step_def scenario_genesis_eq token_defs arith_defs Let_def)

lemma scenario_paid_eq:
  "scenario_paid = \<lparr>balances = (\<lambda>_. 0)(1 := 100000000 * 10 ^ 18 - 10000,
       3 := 10, 4 := 5, 5 := 5, 6 := 9000, 7 := 980),
     allowances = (\<lambda>_ _. 0), totalSupply = 100000000 * 10 ^ 18,
     token_owner = 1, buybackWallet = 3, liquidityWallet = 4, treasuryWallet = 5,
     totalBurned = 0, totalFees = 20, isExcludedFromFee = (\<lambda>_. False)(1 := True, 2 := True)\<rparr>"
  by (simp add: scenario_paid_def scenario_funded_eq token_defs arith_defs Let_def)

lemma scenario_paid_transfer: "transfer scenario_funded 6 7 1000 = Inr scenario_paid"
  unfolding scenario_paid_eq by (simp add: scenario_funded_eq token_defs arith_defs Let_def)

theorem supply_conserved_witness:
  "ALOToken_constructor 1 2 3 4 5 = Inr scenario_genesis \<and>
   totalBurned (token_run scenario_genesis scenario_burns) = 100 \<and>
   balances (token_run scenario_genesis scenario_burns) 7 = 900 \<and>
   total_balance (token_run scenario_genesis scenario_burns) +
     totalBurned (token_run scenario_genesis scenario_burns) = 100000000 * 10 ^ 18"
proof -
  have "totalBurned (token_run scenario_genesis scenario_burns) = 100 \<and>
      balances (token_run scenario_genesis scenario_burns) 7 = 900"
    by (simp add: scenario_burns_def token_step_def scenario_genesis_eq token_defs arith_defs Let_def)
  with supply_conserved [OF scenario_genesis_constructed, of scenario_burns]
    scenario_genesis_constructed
  show ?thesis by simp
qed

lemma ERC20_transfer_internal_split:
  assumes inv: "token_inv s"
    and tr: "ERC20_transfer_internal s from to amt = Inr s'"
  shows "(isExcludedFromFee s from \<or> isExcludedFromFee s to \<longrightarrow>
            balances s' = ledger_move (balances s) from to amt \<and>
            (from \<noteq> to \<longrightarrow> balances s' to = balances s to + amt \<and>
                                 balances s' from + amt = balances s from)) \<and>
         (\<not> isExcludedFromFee s from \<and> \<not> isExcludedFromFee s to \<longrightarrow>
            balances s' =
              ledger_move (ledger_move (ledger_move (ledger_move (balances s)
                from (buybackWallet s) (amt div 100))
                from (liquidityWallet s) (amt div 200))
                from (treasuryWallet s) (amt div 200))
                from to (amt - (amt div 100 + amt div 200 + amt div 200)) \<and>
            (distinct [from, to, buybackWallet s, liquidityWallet s, treasuryWallet s] \<longrightarrow>
               balances s' (buybackWallet s) = balances s (buybackWallet s) + amt div 100 \<and>
               balances s' (liquidityWallet s) = balances s (liquidityWallet s) + amt div 200 \<and>
               balances s' (treasuryWallet s) = balances s (treasuryWallet s) + amt div 200 \<and>
               balances s' to = balances s to +
                 (amt - (amt div 100 + amt div 200 + amt div 200)) \<and>
               balances s' from + amt = balances s from))"
proof -
  from tr have nz: "from \<noteq> 0" "to \<noteq> 0" and u: "ALOToken_update s from to amt = Inr s'"
    by (auto simp: ERC20_transfer_internal_def split: if_splits)
  note tot = token_inv_total_le [OF inv]
  from inv have w: "buybackWallet s \<noteq> 0" "liquidityWallet s \<noteq> 0" "treasuryWallet s \<noteq> 0"
    by (simp_all add: token_inv_def)
  have fl: "amt div 100 + amt div 200 + amt div 200 \<le> amt" by simp
  show ?thesis
  proof (rule conjI; rule impI)
    assume "isExcludedFromFee s from \<or> isExcludedFromFee s to"
    then have "isExcludedFromFee s from \<or> isExcludedFromFee s to \<or> amt = 0" by blast
    from ALOToken_update_plain [OF u nz this tot]
    have s': "balances s' = ledger_move (balances s) from to amt"
      and le: "amt \<le> balances s from" by simp_all
    have "balances s' to = balances s to + amt \<and> balances s' from + amt = balances s from"
      if "from \<noteq> to"
      using that le unfolding s' ledger_move_def by simp
    then have "from \<noteq> to \<longrightarrow> balances s' to = balances s to + amt \<and>
                                 balances s' from + amt = balances s from"
      by (rule impI)
    with s' show "balances s' = ledger_move (balances s) from to amt \<and>
            (from \<noteq> to \<longrightarrow> balances s' to = balances s to + amt \<and>
                                 balances s' from + amt = balances s from)"
      by (rule conjI)
  next
    assume "\<not> isExcludedFromFee s from \<and> \<not> isExcludedFromFee s to"
    then have fee: "\<not> isExcludedFromFee s from" "\<not> isExcludedFromFee s to" by simp_all
    let ?B = "ledger_move (ledger_move (ledger_move (ledger_move (balances s)
                from (buybackWallet s) (amt div 100))
                from (liquidityWallet s) (amt div 200))
                from (treasuryWallet s) (amt div 200))
                from to (amt - (amt div 100 + amt div 200 + amt div 200))"
    have s': "balances s' = ?B"
      and le: "from \<noteq> buybackWallet s \<and> from \<noteq> liquidityWallet s \<and> from \<noteq> treasuryWallet s
            \<longrightarrow> amt \<le> balances s from"
    proof -
      show "balances s' = ?B"
      proof (cases "amt = 0")
        case True
        then have "isExcludedFromFee s from \<or> isExcludedFromFee s to \<or> amt = 0" by blast
        from ALOToken_update_plain [OF u nz this tot] True show ?thesis
          by (simp add: ledger_move_zero)
      next
        case False
        then have "amt > 0" by simp
        from ALOToken_update_fee [OF u nz fee this w tot refl refl refl] show ?thesis
          by simp
      qed
      show "from \<noteq> buybackWallet s \<and> from \<noteq> liquidityWallet s \<and> from \<noteq> treasuryWallet s
            \<longrightarrow> amt \<le> balances s from"
      proof (cases "amt = 0")
        case True
        then show ?thesis by simp
      next
        case False
        then have "amt > 0" by simp
        from ALOToken_update_fee [OF u nz fee this w tot refl refl refl] show ?thesis
          by blast
      qed
    qed
    have dl: "distinct [from, to, buybackWallet s, liquidityWallet s, treasuryWallet s] \<longrightarrow>
          balances s' (buybackWallet s) = balances s (buybackWallet s) + amt div 100 \<and>
          balances s' (liquidityWallet s) = balances s (liquidityWallet s) + amt div 200 \<and>
          balances s' (treasuryWallet s) = balances s (treasuryWallet s) + amt div 200 \<and>
          balances s' to = balances s to +
                 (amt - (amt div 100 + amt div 200 + amt div 200)) \<and>
          balances s' from + amt = balances s from"
    proof (rule impI)
      assume d: "distinct [from, to, buybackWallet s, liquidityWallet s, treasuryWallet s]"
      from d le have a: "amt \<le> balances s from" by simp
      from d have ne: "from \<noteq> to" "from \<noteq> buybackWallet s" "from \<noteq> liquidityWallet s"
        "from \<noteq> treasuryWallet s" "to \<noteq> buybackWallet s" "to \<noteq> liquidityWallet s"
        "to \<noteq> treasuryWallet s" "buybackWallet s \<noteq> liquidityWallet s"
        "buybackWallet s \<noteq> treasuryWallet s" "liquidityWallet s \<noteq> treasuryWallet s"
        by simp_all
      note ne' = ne ne [symmetric]
      from a fl show "balances s' (buybackWallet s) = balances s (buybackWallet s) + amt div 100 \<and>
          balances s' (liquidityWallet s) = balances s (liquidityWallet s) + amt div 200 \<and>
          balances s' (treasuryWallet s) = balances s (treasuryWallet s) + amt div 200 \<and>
          balances s' to = balances s to +
                 (amt - (amt div 100 + amt div 200 + amt div 200)) \<and>
          balances s' from + amt = balances s from"
        unfolding s' ledger_move_def by (simp add: ne')
    qed
    from s' dl show "balances s' = ?B \<and>
            (distinct [from, to, buybackWallet s, liquidityWallet s, treasuryWallet s] \<longrightarrow>
               balances s' (buybackWallet s) = balances s (buybackWallet s) + amt div 100 \<and>
               balances s' (liquidityWallet s) = balances s (liquidityWallet s) + amt div 200 \<and>
               balances s' (treasuryWallet s) = balances s (treasuryWallet s) + amt div 200 \<and>
               balances s' to = balances s to +
                 (amt - (amt div 100 + amt div 200 + amt div 200)) \<and>
               balances s' from + amt = balances s from)"
      by (rule conjI)
  qed
qed

text \<open>
  C5: in any state \<open>s\<close> the token can reach, a successful \<open>transfer\<close> or \<open>transferFrom\<close> of \<open>amt\<close>
  from \<open>from\<close> to \<open>to\<close> changes the balances as follows. If either party is excluded from fees,
  \<open>amt\<close> moves from \<open>from\<close> to \<open>to\<close> unmodified. Otherwise \<open>amt div 100\<close> (1 percent)
  moves to the buyback wallet, \<open>amt div 200\<close> (0.5 percent) to the liquidity wallet,
  \<open>amt div 200\<close> to the treasury wallet, one after the other, and the remainder to \<open>to\<close>;
  when the five addresses are distinct, each wallet's balance grows by exactly its fee, the
  recipient's by the remainder, and the sender's shrinks by \<open>amt\<close>.
\<close>

theorem transfer_fee_split:
  assumes gen: "ALOToken_constructor deployer this bw0 lw0 tw0 = Inr s0"
    and s: "s = token_run s0 cs"
    and tr: "transfer s from to amt = Inr s' \<or> transferFrom s spender from to amt = Inr s'"
  shows "(isExcludedFromFee s from \<or> isExcludedFromFee s to \<longrightarrow>
            balances s' = ledger_move (balances s) from to amt \<and>
            (from \<noteq> to \<longrightarrow> balances s' to = balances s to + amt \<and>
                                 balances s' from + amt = balances s from)) \<and>
         (\<not> isExcludedFromFee s from \<and> \<not> isExcludedFromFee s to \<longrightarrow>
            balances s' =
              ledger_move (ledger_move (ledger_move (ledger_move (balances s)
                from (buybackWallet s) (amt div 100))
                from (liquidityWallet s) (amt div 200))
                from (treasuryWallet s) (amt div 200))
                from to (amt - (amt div 100 + amt div 200 + amt div 200)) \<and>
            (distinct [from, to, buybackWallet s, liquidityWallet s, treasuryWallet s] \<longrightarrow>
               balances s' (buybackWallet s) = balances s (buybackWallet s) + amt div 100 \<and>
               balances s' (liquidityWallet s) = balances s (liquidityWallet s) + amt div 200 \<and>
               balances s' (treasuryWallet s) = balances s (treasuryWallet s) + amt div 200 \<and>
               balances s' to = balances s to +
                 (amt - (amt div 100 + amt div 200 + amt div 200)) \<and>
               balances s' from + amt = balances s from))"
proof -
  have inv: "token_inv s"
    unfolding s by (rule token_run_inv [OF ALOToken_constructor_inv [OF gen]])
  from tr show ?thesis
  proof
    assume "transfer s from to amt = Inr s'"
    then have "ERC20_transfer_internal s from to amt = Inr s'" by (simp add: transfer_def)
    from ERC20_transfer_internal_split [OF inv this] show ?thesis .
  next
    assume "transferFrom s spender from to amt = Inr s'"
    then obtain s1 where 1: "ERC20_spendAllowance s from spender amt = Inr s1"
      and 2: "ERC20_transfer_internal s1 from to amt = Inr s'"
      by (auto simp: transferFrom_def bindE_Inr_iff)
    from ERC20_spendAllowance_shape [OF 1] obtain A where s1: "s1 = s\<lparr>allowances := A\<rparr>"
      by blast
    with inv have "token_inv s1" by simp
    note th = ERC20_transfer_internal_split [OF this 2]
    have f: "balances s1 = balances s" "isExcludedFromFee s1 = isExcludedFromFee s"
      "buybackWallet s1 = buybackWallet s" "liquidityWallet s1 = liquidityWallet s"
      "treasuryWallet s1 = treasuryWallet s"
      by (simp_all add: s1)
    show ?thesis using th unfolding f .
  qed
qed

theorem transfer_fee_split_witness:
  "transfer scenario_funded 6 7 1000 = Inr scenario_paid \<and>
   \<not> isExcludedFromFee scenario_funded 6 \<and> \<not> isExcludedFromFee scenario_funded 7 \<and>
   balances scenario_paid 3 = balances scenario_funded 3 + 10 \<and>
   balances scenario_paid 4 = balances scenario_funded 4 + 5 \<and>
   balances scenario_paid 5 = balances scenario_funded 5 + 5 \<and>
   balances scenario_paid 7 = balances scenario_funded 7 + 980 \<and>
   balances scenario_paid 6 + 1000 = balances scenario_funded 6"
  using transfer_fee_split [OF scenario_genesis_constructed scenario_funded_def
      disjI1 [OF scenario_paid_transfer]]
    scenario_paid_transfer
  by (simp add: scenario_funded_eq ledger_move_def)

section \<open>Properties of the staking engine\<close>

lemma scenario_staking0_constructed: "ALOStaking_constructor 1 2 1 = Inr scenario_staking0"
  by (simp add: ALOStaking_constructor_def scenario_staking0_def require_def)

lemma ALOStaking_constructor_configs:
  assumes "ALOStaking_constructor sender tokenAddr rate = Inr st"
  shows "requiredAmount (tierConfigs st BRONZE) = 100 * 10 ^ 18"
    and "requiredAmount (tierConfigs st SILVER) = 500 * 10 ^ 18"
    and "requiredAmount (tierConfigs st PLATINUM) = 1000 * 10 ^ 18"
    and "requiredAmount (tierConfigs st DIAMOND) = 1500 * 10 ^ 18"
    and "multiplier (tierConfigs st FREE) = 10000"
    and "multiplier (tierConfigs st BRONZE) = 10000"
    and "multiplier (tierConfigs st SILVER) = 11000"
    and "multiplier (tierConfigs st PLATINUM) = 12500"
    and "multiplier (tierConfigs st DIAMOND) = 15000"
  using assms
  by (auto simp: ALOStaking_constructor_def bindE_Inr_iff require_Inr_iff split: if_splits)

text \<open>
  C6: the tier is a function of the staked amount and the tier table alone: the first of
  DIAMOND, PLATINUM, SILVER, BRONZE whose required amount is at most the staked amount, and
  FREE when there is none. With the thresholds the constructor sets, 100 and 499 tokens give
  BRONZE, 500 gives SILVER, 1500 gives DIAMOND and 0 gives FREE.
\<close>

theorem tier_assignment:
  "getTierForAmount st a = getTier_spec st a \<and>
   (ALOStaking_constructor sender tokenAddr rate = Inr st0 \<longrightarrow>
      getTierForAmount st0 (100 * 10 ^ 18) = BRONZE \<and>
      getTierForAmount st0 (499 * 10 ^ 18) = BRONZE \<and>
      getTierForAmount st0 (500 * 10 ^ 18) = SILVER \<and>
      getTierForAmount st0 (1500 * 10 ^ 18) = DIAMOND \<and>
      getTierForAmount st0 0 = FREE)"
proof (rule conjI)
  show "getTierForAmount st a = getTier_spec st a"
    by (simp add: getTierForAmount_def getTier_spec_def)
  show "ALOStaking_constructor sender tokenAddr rate = Inr st0 \<longrightarrow>
      getTierForAmount st0 (100 * 10 ^ 18) = BRONZE \<and>
      getTierForAmount st0 (499 * 10 ^ 18) = BRONZE \<and>
      getTierForAmount st0 (500 * 10 ^ 18) = SILVER \<and>
      getTierForAmount st0 (1500 * 10 ^ 18) = DIAMOND \<and>
      getTierForAmount st0 0 = FREE"
  proof
    assume c: "ALOStaking_constructor sender tokenAddr rate = Inr st0"
    note cfg = ALOStaking_constructor_configs(1-4) [OF c]
    show "getTierForAmount st0 (100 * 10 ^ 18) = BRONZE \<and>
      getTierForAmount st0 (499 * 10 ^ 18) = BRONZE \<and>
      getTierForAmount st0 (500 * 10 ^ 18) = SILVER \<and>
      getTierForAmount st0 (1500 * 10 ^ 18) = DIAMOND \<and>
      getTierForAmount st0 0 = FREE"
      by (simp add: getTierForAmount_def cfg)
  qed
qed

theorem tier_assignment_witness:
  "ALOStaking_constructor 1 2 1 = Inr scenario_staking0 \<and>
   getTierForAmount scenario_staking0 (100 * 10 ^ 18) = BRONZE \<and>
   getTierForAmount scenario_staking0 (499 * 10 ^ 18) = BRONZE \<and>
   getTierForAmount scenario_staking0 (500 * 10 ^ 18) = SILVER \<and>
   getTierForAmount scenario_staking0 (1500 * 10 ^ 18) = DIAMOND \<and>
   getTierForAmount scenario_staking0 0 = FREE \<and>
   getTierForAmount scenario_staking0 (1000 * 10 ^ 18) = getTier_spec scenario_staking0 (1000 * 10 ^ 18)"
  using tier_assignment [of scenario_staking0 "1000 * 10 ^ 18" 1 2 1 scenario_staking0]
    scenario_staking0_constructed
  by simp

text \<open>
  C3, as amended: for an address with a non-zero stake, when the clock has not gone back and
  no product leaves the 256-bit range, \<open>calculateRewards\<close> returns the staked amount (in
  units of \<open>10^-18\<close> token) times the reward rate times the seconds since the last claim,
  divided by \<open>10^18\<close> and truncated, then times the tier multiplier, divided by 10000 and
  truncated again; it never exceeds the exact quotient. For a stake of 1,000 tokens at
  multiplier 12500 and 86,400 elapsed seconds this is \<open>1000 * R * 86400 * 12500 div 10000\<close>.
\<close>

theorem calculateRewards_formula:
  assumes "amount (stakes st user) \<noteq> 0"
    and "lastClaimTime (stakes st user) \<le> now"
    and "amount (stakes st user) * rewardRate st \<le> MAX_UINT256"
    and "amount (stakes st user) * rewardRate st * (now - lastClaimTime (stakes st user))
           \<le> MAX_UINT256"
    and "amount (stakes st user) * rewardRate st * (now - lastClaimTime (stakes st user))
           div 10 ^ 18 * multiplier (tierConfigs st (tier (stakes st user))) \<le> MAX_UINT256"
  shows "(\<exists>r. calculateRewards st now user = Inr r \<and>
           r = amount (stakes st user) * rewardRate st * (now - lastClaimTime (stakes st user))
                 div 10 ^ 18 * multiplier (tierConfigs st (tier (stakes st user))) div 10000 \<and>
           r * (10 ^ 18 * 10000) \<le>
             amount (stakes st user) * rewardRate st * (now - lastClaimTime (stakes st user))
               * multiplier (tierConfigs st (tier (stakes st user)))) \<and>
         (amount (stakes st user) = 1000 * 10 ^ 18 \<and>
          multiplier (tierConfigs st (tier (stakes st user))) = 12500 \<and>
          now - lastClaimTime (stakes st user) = 86400 \<longrightarrow>
          calculateRewards st now user = Inr (1000 * rewardRate st * 86400 * 12500 div 10000))"
proof -
  let ?a = "amount (stakes st user)" and ?t = "now - lastClaimTime (stakes st user)"
  let ?m = "multiplier (tierConfigs st (tier (stakes st user)))"
  let ?r = "?a * rewardRate st * ?t div 10 ^ 18 * ?m div 10000"
  from assms have eq: "calculateRewards st now user = Inr ?r"
    by (simp add: calculateRewards_def Let_def checked_sub_def checked_mul_def)
  have "?r * 10000 \<le> ?a * rewardRate st * ?t div 10 ^ 18 * ?m"
    by simp
  then have "?r * 10000 * 10 ^ 18 \<le> ?a * rewardRate st * ?t div 10 ^ 18 * ?m * 10 ^ 18"
    by (rule mult_le_mono1)
  also have "\<dots> = (?a * rewardRate st * ?t div 10 ^ 18 * 10 ^ 18) * ?m"
    by (simp add: mult_ac)
  also have "\<dots> \<le> (?a * rewardRate st * ?t) * ?m"
    by (rule mult_le_mono1) simp
  finally have le: "?r * (10 ^ 18 * 10000) \<le> ?a * rewardRate st * ?t * ?m"
    by (simp add: mult_ac)
  have "calculateRewards st now user = Inr (1000 * rewardRate st * 86400 * 12500 div 10000)"
    if "?a = 1000 * 10 ^ 18" "?m = 12500" "?t = 86400"
  proof -
    have "(1000 * 10 ^ 18) * rewardRate st * 86400 div 10 ^ 18 = 1000 * rewardRate st * 86400"
    proof -
      have "(1000 * 10 ^ 18) * rewardRate st * 86400 = (1000 * rewardRate st * 86400) * 10 ^ 18"
        by (simp add: mult_ac)
      then show ?thesis by (simp only: nonzero_mult_div_cancel_right) simp
    qed
    with eq that show ?thesis by simp
  qed
  with eq le show ?thesis by blast
qed

lemmas staking_defs = stake_def unstake_def claimRewards_def claimRewards_internal_def
  calculateRewards_def emergencyWithdraw_def getTierForAmount_def staking_step_def
  empty_stake_def

lemma scenario_stake_token_eq:
  "scenario_stake_token = \<lparr>balances = (\<lambda>_. 0)(9 := 1000000 * 10 ^ 18,
       1 := 98990000 * 10 ^ 18, 6 := 10000 * 10 ^ 18),
     allowances = (\<lambda>_ _. 0)(6 := (\<lambda>_. 0)(9 := 10000 * 10 ^ 18)),
     totalSupply = 100000000 * 10 ^ 18,
     token_owner = 1, buybackWallet = 3, liquidityWallet = 4, treasuryWallet = 5,
     totalBurned = 0, totalFees = 0,
     isExcludedFromFee = (\<lambda>_. False)(1 := True, 2 := True, 9 := True)\<rparr>"
  by (simp add: scenario_stake_token_def token_step_def scenario_genesis_eq token_defs
      setExcludeFromFee_def onlyOwner_def arith_defs Let_def)

lemma scenario_platinum_eq:
  "scenario_platinum =
    (scenario_stake_token\<lparr>balances := (\<lambda>_. 0)(1 := 98990000 * 10 ^ 18,
       6 := 9000 * 10 ^ 18, 9 := 1001000 * 10 ^ 18),
       allowances := (\<lambda>_ _. 0)(6 := (\<lambda>_. 0)(9 := 9000 * 10 ^ 18))\<rparr>,
     scenario_staking0\<lparr>totalStaked := 1000 * 10 ^ 18,
       stakes := (\<lambda>_. empty_stake)(6 := \<lparr>amount = 1000 * 10 ^ 18, startTime = 1000,
         lastClaimTime = 1000, tier = PLATINUM, rewardDebt = 0\<rparr>),
       tierStakers := (\<lambda>_. 0)(PLATINUM := 1),
       tierTotalStaked := (\<lambda>_. 0)(PLATINUM := 1000 * 10 ^ 18)\<rparr>)"
  by (simp add: scenario_platinum_def scenario_stake_token_eq scenario_staking0_def
      staking_defs token_defs arith_defs Let_def)

theorem calculateRewards_formula_witness:
  "amount (stakes (snd scenario_platinum) 6) = 1000 * 10 ^ 18 \<and>
   tier (stakes (snd scenario_platinum) 6) = PLATINUM \<and>
   rewardRate (snd scenario_platinum) = 1 \<and>
   calculateRewards (snd scenario_platinum) 87400 6 = Inr (1000 * 1 * 86400 * 12500 div 10000)"
  using calculateRewards_formula [of "snd scenario_platinum" 6 87400]
  by (simp add: scenario_platinum_eq scenario_staking0_def MAX_UINT256_def)

lemma scenario_fraction_eq:
  "snd scenario_fraction =
     scenario_staking0\<lparr>totalStaked := 15007 * 10 ^ 17,
       stakes := (\<lambda>_. empty_stake)(6 := \<lparr>amount = 15007 * 10 ^ 17, startTime = 1000,
         lastClaimTime = 1000, tier = DIAMOND, rewardDebt = 0\<rparr>),
       tierStakers := (\<lambda>_. 0)(DIAMOND := 1),
       tierTotalStaked := (\<lambda>_. 0)(DIAMOND := 15007 * 10 ^ 17)\<rparr>"
  by (simp add: scenario_fraction_def scenario_stake_token_eq scenario_staking0_def
      staking_defs token_defs arith_defs Let_def)

theorem calculateRewards_formula_counterexample:
  "amount (stakes (snd scenario_fraction) 6) = 15007 * 10 ^ 17 \<and>
   rewardRate (snd scenario_fraction) = 1 \<and>
   lastClaimTime (stakes (snd scenario_fraction) 6) = 1000 \<and>
   multiplier (tierConfigs (snd scenario_fraction) (tier (stakes (snd scenario_fraction) 6))) = 15000 \<and>
   calculateRewards (snd scenario_fraction) 1001 6 = Inr 2250 \<and>
   calculateRewards (snd scenario_fraction) 1001 6 \<noteq>
     Inr (amount (stakes (snd scenario_fraction) 6) * rewardRate (snd scenario_fraction) *
          (1001 - lastClaimTime (stakes (snd scenario_fraction) 6)) *
          multiplier (tierConfigs (snd scenario_fraction) (tier (stakes (snd scenario_fraction) 6)))
          div 10000) \<and>
   15007 * 10 ^ 17 * 1 * (1001 - 1000) * 15000 div (10 ^ 18 * 10000) = (2251 :: nat)"
  by (simp add: scenario_fraction_eq scenario_staking0_def calculateRewards_def arith_defs)

text \<open>
  What \<open>claimRewards\<close> does on the code. With a zero stake it fails with
  \<^verbatim>\<open>No active stake\<close>. With a non-zero stake it computes the pending reward
  \<open>calculateRewards\<close> gives since \<open>lastClaimTime\<close>. When that reward is positive and the call
  succeeds, the token transfer of exactly that reward from the contract to the caller has
  taken place, the contract's balance covered \<open>totalStaked\<close> plus the reward, and the
  caller's \<open>lastClaimTime\<close> is the current time; when the contract's balance does not cover
  \<open>totalStaked\<close> plus the reward, the call fails as a whole. When the reward is zero the call
  succeeds and changes nothing, the last claim time included.
\<close>

lemma claimRewards_behaviour:
  "(amount (stakes st sender) = 0 \<longrightarrow>
      claimRewards this now sender (tok, st) = Inl (Revert ''No active stake'')) \<and>
   (amount (stakes st sender) \<noteq> 0 \<and> calculateRewards st now sender = Inr 0 \<longrightarrow>
      claimRewards this now sender (tok, st) = Inr (tok, st)) \<and>
   (amount (stakes st sender) \<noteq> 0 \<and> calculateRewards st now sender = Inr r \<and> 0 < r \<and>
    balances tok this < totalStaked st + r \<longrightarrow>
      (\<exists>e. claimRewards this now sender (tok, st) = Inl e)) \<and>
   (calculateRewards st now sender = Inr r \<and> 0 < r \<and>
    claimRewards this now sender (tok, st) = Inr (tok', st') \<longrightarrow>
      transfer tok this sender r = Inr tok' \<and>
      totalStaked st + r \<le> balances tok this \<and>
      st' = st\<lparr>stakes := (stakes st)(sender := (stakes st sender)
              \<lparr>lastClaimTime := now, rewardDebt := rewardDebt (stakes st sender) + r\<rparr>)\<rparr> \<and>
      lastClaimTime (stakes st' sender) = now)"
proof (intro conjI impI)
  assume "amount (stakes st sender) = 0"
  then show "claimRewards this now sender (tok, st) = Inl (Revert ''No active stake'')"
    by (simp add: claimRewards_def claimRewards_internal_def require_def Let_def)
next
  assume "amount (stakes st sender) \<noteq> 0 \<and> calculateRewards st now sender = Inr 0"
  then show "claimRewards this now sender (tok, st) = Inr (tok, st)"
    by (simp add: claimRewards_def claimRewards_internal_def require_def Let_def)
next
  assume a: "amount (stakes st sender) \<noteq> 0 \<and> calculateRewards st now sender = Inr r \<and> 0 < r \<and>
    balances tok this < totalStaked st + r"
  show "\<exists>e. claimRewards this now sender (tok, st) = Inl e"
  proof (cases "claimRewards this now sender (tok, st)")
    case (Inl e)
    then show ?thesis by blast
  next
    case (Inr w)
    with a have False
      by (auto simp: claimRewards_def claimRewards_internal_def Let_def bindE_Inr_iff
          require_Inr_iff checked_add_Inr_iff)
    then show ?thesis ..
  qed
next
  assume a: "calculateRewards st now sender = Inr r \<and> 0 < r \<and>
    claimRewards this now sender (tok, st) = Inr (tok', st')"
  then have *: "transfer tok this sender r = Inr tok' \<and>
      totalStaked st + r \<le> balances tok this \<and>
      st' = st\<lparr>stakes := (stakes st)(sender := (stakes st sender)
              \<lparr>lastClaimTime := now, rewardDebt := rewardDebt (stakes st sender) + r\<rparr>)\<rparr>"
    by (auto simp: claimRewards_def claimRewards_internal_def Let_def bindE_Inr_iff
          require_Inr_iff checked_add_Inr_iff)
  then show "transfer tok this sender r = Inr tok'" by blast
  from * show "totalStaked st + r \<le> balances tok this" by blast
  from * show "st' = st\<lparr>stakes := (stakes st)(sender := (stakes st sender)
              \<lparr>lastClaimTime := now, rewardDebt := rewardDebt (stakes st sender) + r\<rparr>)\<rparr>"
    by blast
  from * show "lastClaimTime (stakes st' sender) = now" by simp
qed

lemma scenario_claimed_eq:
  "scenario_claimed =
    (scenario_stake_token\<lparr>balances := (\<lambda>_. 0)(1 := 98990000 * 10 ^ 18,
       9 := 1001000 * 10 ^ 18 - 108000000, 6 := 9000 * 10 ^ 18 + 108000000),
       allowances := (\<lambda>_ _. 0)(6 := (\<lambda>_. 0)(9 := 9000 * 10 ^ 18))\<rparr>,
     scenario_staking0\<lparr>totalStaked := 1000 * 10 ^ 18,
       stakes := (\<lambda>_. empty_stake)(6 := \<lparr>amount = 1000 * 10 ^ 18, startTime = 1000,
         lastClaimTime = 87400, tier = PLATINUM, rewardDebt = 108000000\<rparr>),
       tierStakers := (\<lambda>_. 0)(PLATINUM := 1),
       tierTotalStaked := (\<lambda>_. 0)(PLATINUM := 1000 * 10 ^ 18)\<rparr>)"
  by (simp add: scenario_claimed_def scenario_platinum_eq scenario_stake_token_eq
      scenario_staking0_def staking_defs token_defs arith_defs Let_def)

lemma scenario_claimed_success:
  "claimRewards 9 87400 6 scenario_platinum = Inr scenario_claimed"
  unfolding scenario_claimed_eq
  by (simp add: scenario_platinum_eq scenario_stake_token_eq
      scenario_staking0_def staking_defs token_defs arith_defs Let_def)

lemma claimRewards_behaviour_instance:
  "calculateRewards (snd scenario_platinum) 87400 6 = Inr 108000000 \<and>
   claimRewards 9 87400 6 scenario_platinum = Inr scenario_claimed \<and>
   transfer (fst scenario_platinum) 9 6 108000000 = Inr (fst scenario_claimed) \<and>
   balances (fst scenario_claimed) 6 = balances (fst scenario_platinum) 6 + 108000000 \<and>
   lastClaimTime (stakes (snd scenario_claimed) 6) = 87400 \<and>
   claimRewards 9 87400 7 scenario_platinum = Inl (Revert ''No active stake'')"
proof -
  have r: "calculateRewards (snd scenario_platinum) 87400 6 = Inr 108000000"
    by (simp add: scenario_platinum_eq scenario_staking0_def calculateRewards_def arith_defs)
  have c: "claimRewards 9 87400 6 (fst scenario_platinum, snd scenario_platinum) =
      Inr (fst scenario_claimed, snd scenario_claimed)"
    using scenario_claimed_success by simp
  have z: "amount (stakes (snd scenario_platinum) 7) = 0"
    by (simp add: scenario_platinum_eq scenario_staking0_def empty_stake_def)
  from claimRewards_behaviour [of "snd scenario_platinum" 6 9 87400 "fst scenario_platinum"
      108000000 "fst scenario_claimed" "snd scenario_claimed"] r c
  have 1: "transfer (fst scenario_platinum) 9 6 108000000 = Inr (fst scenario_claimed)"
    and 2: "lastClaimTime (stakes (snd scenario_claimed) 6) = 87400"
    by simp_all
  from claimRewards_behaviour [of "snd scenario_platinum" 7 9 87400 "fst scenario_platinum"] z
  have 3: "claimRewards 9 87400 7 scenario_platinum = Inl (Revert ''No active stake'')"
    by simp
  have 4: "balances (fst scenario_claimed) 6 = balances (fst scenario_platinum) 6 + 108000000"
    by (simp add: scenario_claimed_eq scenario_platinum_eq)
  from r scenario_claimed_success 1 2 3 4 show ?thesis by simp
qed

lemma scenario_dust_eq:
  "snd scenario_dust =
     scenario_staking0\<lparr>totalStaked := 1,
       stakes := (\<lambda>_. empty_stake)(6 := \<lparr>amount = 1, startTime = 1000,
         lastClaimTime = 1000, tier = FREE, rewardDebt = 0\<rparr>),
       tierStakers := (\<lambda>_. 0)(FREE := 1),
       tierTotalStaked := (\<lambda>_. 0)(FREE := 1)\<rparr>"
  by (simp add: scenario_dust_def scenario_stake_token_eq scenario_staking0_def
      staking_defs token_defs arith_defs Let_def)

lemma claimRewards_dust_no_reset:
  "amount (stakes (snd scenario_dust) 6) = 1 \<and>
   claimRewards 9 2000 6 scenario_dust = Inr scenario_dust \<and>
   lastClaimTime (stakes (snd scenario_dust) 6) = 1000 \<and>
   lastClaimTime (stakes (snd (attempt scenario_dust (claimRewards 9 2000 6 scenario_dust))) 6)
     \<noteq> 2000"
proof -
  have "claimRewards 9 2000 6 (fst scenario_dust, snd scenario_dust) =
      Inr (fst scenario_dust, snd scenario_dust)"
    by (simp add: scenario_dust_eq scenario_staking0_def claimRewards_def
        claimRewards_internal_def calculateRewards_def arith_defs Let_def)
  then have c: "claimRewards 9 2000 6 scenario_dust = Inr scenario_dust" by simp
  then show ?thesis
    by (simp add: scenario_dust_eq)
qed

lemma scenario_stale_stake:
  "stakes (snd scenario_stale) 6 = \<lparr>amount = 1000 * 10 ^ 18, startTime = 1000,
       lastClaimTime = 1000, tier = PLATINUM, rewardDebt = 0\<rparr> \<and>
   rewardRate (snd scenario_stale) = 1 \<and>
   totalStaked (snd scenario_stale) = 1000 * 10 ^ 18 \<and>
   multiplier (tierConfigs (snd scenario_stale) PLATINUM) = 12500 \<and>
   balances (fst scenario_stale) 9 = 1001000 * 10 ^ 18 \<and>
   balances (fst scenario_stale) 6 = 9000 * 10 ^ 18"
  by (simp add: scenario_stale_def scenario_stake_token_eq scenario_staking0_def
      staking_defs token_defs arith_defs Let_def)

lemma scenario_fresh_stake:
  "stakes (snd scenario_fresh) 6 = \<lparr>amount = 1000 * 10 ^ 18, startTime = 87400,
       lastClaimTime = 87400, tier = PLATINUM, rewardDebt = 0\<rparr> \<and>
   rewardRate (snd scenario_fresh) = 1 \<and>
   multiplier (tierConfigs (snd scenario_fresh) PLATINUM) = 12500"
  by (simp add: scenario_fresh_def scenario_stake_token_eq scenario_staking0_def
      staking_defs token_defs arith_defs Let_def)

lemma scenario_stale_claim:
  "lastClaimTime (stakes (snd (attempt scenario_stale (claimRewards 9 87400 6 scenario_stale))) 6)
     = 87400 \<and>
   balances (fst (attempt scenario_stale (claimRewards 9 87400 6 scenario_stale))) 6 =
     9000 * 10 ^ 18 + 108000000"
  by (simp add: scenario_stale_def scenario_stake_token_eq scenario_staking0_def
      staking_defs token_defs arith_defs Let_def)

text \<open>
  C7: the claim is that a successful \<open>claimRewards\<close> pays the pending reward and resets the
  caller's \<open>lastClaimTime\<close> to the current time. On the code this fails when the pending
  reward truncates to zero: the reset sits inside the test for a positive reward. Address 6
  stakes a single unit at time 1000 and claims at time 2000: the call succeeds, pays nothing
  and leaves \<open>lastClaimTime\<close> at 1000. The same settlement runs first in \<open>stake\<close>: when
  address 6 adds the rest of 1,000 tokens at time 87400, the clock stays at 1000, so that
  108,000,000 units of reward are pending at that very moment and a claim pays them out,
  while an address that stakes 1,000 tokens at time 87400 in one call has nothing pending.
\<close>

theorem zero_reward_claim_keeps_stale_clock:
  "amount (stakes (snd scenario_dust) 6) = 1 \<and>
   lastClaimTime (stakes (snd scenario_dust) 6) = 1000 \<and>
   claimRewards 9 2000 6 scenario_dust = Inr scenario_dust \<and>
   lastClaimTime (stakes (snd (attempt scenario_dust (claimRewards 9 2000 6 scenario_dust))) 6)
     \<noteq> 2000 \<and>
   amount (stakes (snd scenario_stale) 6) = 1000 * 10 ^ 18 \<and>
   lastClaimTime (stakes (snd scenario_stale) 6) = 1000 \<and>
   calculateRewards (snd scenario_stale) 87400 6 = Inr 108000000 \<and>
   balances (fst (attempt scenario_stale (claimRewards 9 87400 6 scenario_stale))) 6 =
     balances (fst scenario_stale) 6 + 108000000 \<and>
   amount (stakes (snd scenario_fresh) 6) = 1000 * 10 ^ 18 \<and>
   lastClaimTime (stakes (snd scenario_fresh) 6) = 87400 \<and>
   calculateRewards (snd scenario_fresh) 87400 6 = Inr 0"
  using claimRewards_dust_no_reset scenario_stale_stake scenario_fresh_stake scenario_stale_claim
  by (simp add: calculateRewards_def arith_defs)

subsection \<open>What the staking statistics do keep\<close>

text \<open>
  In every reachable storage state \<open>totalStaked\<close> is the sum of the stake records' amounts
  and the staker counts of the tiers add up to the number of addresses with a non-zero stake
  (\<open>staking_counts_invariant\<close>); the per-tier totals are the part that goes wrong.
\<close>

lemma card_split_member:
  assumes "finite S"
  shows "card S = card (S - {x}) + (if x \<in> S then 1 else 0)"
proof (cases "x \<in> S")
  case True
  with assms card.remove [of S x] show ?thesis by simp
next
  case False
  then show ?thesis by simp
qed

lemma staking_effect_inv:
  assumes inv: "staking_inv st" and eff: "staking_effect st st' x"
  shows "staking_inv st'"
proof -
  from eff have e1: "\<And>a. a \<noteq> x \<Longrightarrow> stakes st' a = stakes st a"
    and e2: "totalStaked st' + amount (stakes st x) = totalStaked st + amount (stakes st' x)"
    and e3: "\<And>t. tierStakers st' t + (if amount (stakes st x) \<noteq> 0 \<and> tier (stakes st x) = t then 1 else 0)
        = tierStakers st t + (if amount (stakes st' x) \<noteq> 0 \<and> tier (stakes st' x) = t then 1 else 0)"
    by (simp_all add: staking_effect_def)
  have other: "stakes st' a = stakes st a" if "a \<noteq> x" for a
    using that e1 by simp
  have feq: "(\<lambda>a. amount (stakes st' a)) = (\<lambda>a. amount (stakes st a))(x := amount (stakes st' x))"
    using other by auto
  have "sum ((\<lambda>a. amount (stakes st a))(x := amount (stakes st' x))) UNIV + amount (stakes st x)
      = sum (\<lambda>a. amount (stakes st a)) UNIV + amount (stakes st' x)"
    by (rule sum_fun_upd)
  then have "staked_sum st' + amount (stakes st x) = staked_sum st + amount (stakes st' x)"
    unfolding staked_sum_def feq .
  with inv e2 have j1: "totalStaked st' = staked_sum st'"
    by (simp add: staking_inv_def)
  have j2: "tierStakers st' t = stakers_in st' t" for t
  proof -
    let ?S = "{a. amount (stakes st a) \<noteq> 0 \<and> tier (stakes st a) = t}"
    let ?S' = "{a. amount (stakes st' a) \<noteq> 0 \<and> tier (stakes st' a) = t}"
    have d: "?S' - {x} = ?S - {x}" using other by auto
    have "card ?S = card (?S - {x}) + (if x \<in> ?S then 1 else 0)"
      by (rule card_split_member) simp
    moreover have "card ?S' = card (?S' - {x}) + (if x \<in> ?S' then 1 else 0)"
      by (rule card_split_member) simp
    ultimately have "card ?S' + (if x \<in> ?S then 1 else 0) = card ?S + (if x \<in> ?S' then 1 else 0)"
      using d by simp
    moreover from inv have "tierStakers st t = card ?S"
      by (simp add: staking_inv_def stakers_in_def)
    ultimately show ?thesis using e3 [of t]
      by (simp add: stakers_in_def split: if_splits)
  qed
  from j1 j2 show ?thesis by (simp add: staking_inv_def)
qed

lemma staking_effect_same:
  assumes "stakes st' = stakes st" "totalStaked st' = totalStaked st" "tierStakers st' = tierStakers st"
  shows "staking_effect st st' x"
  using assms by (simp add: staking_effect_def)

lemma claimRewards_internal_effect:
  assumes "claimRewards_internal this now (tok, st) user = Inr (tok', st')"
  shows "(\<forall>a. a \<noteq> user \<longrightarrow> stakes st' a = stakes st a) \<and>
         amount (stakes st' user) = amount (stakes st user) \<and>
         tier (stakes st' user) = tier (stakes st user) \<and>
         0 < amount (stakes st user) \<and>
         totalStaked st' = totalStaked st \<and> tierStakers st' = tierStakers st \<and>
         tierTotalStaked st' = tierTotalStaked st \<and> tierConfigs st' = tierConfigs st"
  using assms
  by (auto simp: claimRewards_internal_def Let_def bindE_Inr_iff require_Inr_iff
      checked_add_Inr_iff split: if_splits)

lemma stake_effect:
  assumes "stake this now sender (tok, st) amt = Inr (tok', st')"
  shows "staking_effect st st' sender"
proof (cases "0 < amount (stakes st sender)")
  case True
  with assms obtain tok1 st1 where
    c: "claimRewards_internal this now (tok, st) sender = Inr (tok1, st1)"
    by (auto simp: stake_def bindE_Inr_iff)
  note e = claimRewards_internal_effect [OF c]
  from assms True c e show ?thesis
    by (cases "tier (stakes st1 sender) =
          getTierForAmount st1 (amount (stakes st1 sender) + amt)")
       (auto simp: stake_def Let_def bindE_Inr_iff require_Inr_iff checked_add_Inr_iff
          checked_sub_Inr_iff staking_effect_def)
next
  case False
  with assms show ?thesis
    by (auto simp: stake_def Let_def bindE_Inr_iff require_Inr_iff checked_add_Inr_iff
          checked_sub_Inr_iff staking_effect_def)
qed

lemma unstake_effect:
  assumes "unstake this now sender (tok, st) amt = Inr (tok', st')"
  shows "staking_effect st st' sender"
proof -
  from assms obtain tok1 st1 where
    c: "claimRewards_internal this now (tok, st) sender = Inr (tok1, st1)"
    by (auto simp: unstake_def bindE_Inr_iff)
  note e = claimRewards_internal_effect [OF c]
  show ?thesis
  proof (cases "amount (stakes st sender) = amt")
    case True
    with assms c e show ?thesis
      by (auto simp: unstake_def Let_def bindE_Inr_iff require_Inr_iff checked_add_Inr_iff
          checked_sub_Inr_iff staking_effect_def empty_stake_def)
  next
    case False
    with assms c e show ?thesis
      by (cases "tier (stakes st1 sender) =
            getTierForAmount (st1\<lparr>stakes := (stakes st1)
              (sender := (stakes st1 sender)\<lparr>amount := amount (stakes st1 sender) - amt\<rparr>)\<rparr>)
              (amount (stakes st1 sender) - amt)")
         (auto simp: unstake_def Let_def bindE_Inr_iff require_Inr_iff checked_add_Inr_iff
            checked_sub_Inr_iff staking_effect_def)
  qed
qed

lemma emergencyWithdraw_effect:
  assumes "emergencyWithdraw this sender (tok, st) = Inr (tok', st')"
  shows "staking_effect st st' sender"
  using assms
  by (auto simp: emergencyWithdraw_def Let_def bindE_Inr_iff require_Inr_iff
      checked_sub_Inr_iff staking_effect_def empty_stake_def)

lemma claimRewards_effect:
  assumes "claimRewards this now sender (tok, st) = Inr (tok', st')"
  shows "staking_effect st st' sender"
  using claimRewards_internal_effect [of this now tok st sender tok' st'] assms
  by (simp add: claimRewards_def staking_effect_def)

lemma staking_exec_effect:
  assumes "staking_exec this now sender (tok, st) op = Inr (tok', st')"
  shows "staking_effect st st' sender"
proof (cases op)
  case (Stake amt)
  with assms show ?thesis by (simp add: stake_effect)
next
  case (Unstake amt)
  with assms show ?thesis by (simp add: unstake_effect)
next
  case ClaimRewards
  with assms show ?thesis by (simp add: claimRewards_effect)
next
  case EmergencyWithdraw
  with assms show ?thesis by (simp add: emergencyWithdraw_effect)
next
  case (SetRewardRate rate)
  with assms show ?thesis
    by (auto simp: setRewardRate_def staking_effect_def split: if_splits)
next
  case (SetTierConfig t req mult)
  with assms show ?thesis
    by (auto simp: setTierConfig_def staking_effect_def split: if_splits)
next
  case (FundRewards amt)
  with assms show ?thesis
    by (auto simp: fundRewards_def staking_effect_def bindE_Inr_iff split: if_splits)
next
  case (StakingTransferOwnership a)
  with assms show ?thesis
    by (auto simp: ALOStaking_transferOwnership_def staking_effect_def split: if_splits)
next
  case StakingRenounceOwnership
  with assms show ?thesis
    by (auto simp: ALOStaking_renounceOwnership_def staking_effect_def split: if_splits)
qed

lemma ALOStaking_constructor_inv:
  assumes "ALOStaking_constructor sender tokenAddr rate = Inr st"
  shows "staking_inv st"
  using assms
  by (auto simp: ALOStaking_constructor_def bindE_Inr_iff require_Inr_iff staking_inv_def
      staked_sum_def stakers_in_def empty_stake_def split: if_splits)

lemma staking_reachable_inv: "staking_reachable st \<Longrightarrow> staking_inv st"
proof (induction rule: staking_reachable.induct)
  case (deployed sender tokenAddr rate st)
  then show ?case by (rule ALOStaking_constructor_inv)
next
  case (called st this now sender tok op tok' st')
  from staking_effect_inv [OF called.IH staking_exec_effect [OF called.hyps(2)]]
  show ?case .
qed

lemma set_all_tiers: "set all_tiers = UNIV"
proof -
  have "t \<in> set all_tiers" for t by (cases t) (simp_all add: all_tiers_def)
  then show ?thesis by blast
qed

lemma stakers_partition:
  "(\<Sum>t\<in>UNIV. stakers_in st t) = card {a. amount (stakes st a) \<noteq> 0}"
proof -
  let ?A = "\<lambda>t. {a. amount (stakes st a) \<noteq> 0 \<and> tier (stakes st a) = t}"
  have fin: "finite (UNIV :: Tier set)"
    using set_all_tiers [symmetric] by (metis List.finite_set)
  have "card (\<Union>t\<in>UNIV. ?A t) = (\<Sum>t\<in>UNIV. card (?A t))"
    by (rule card_UN_disjoint) (use fin in auto)
  moreover have "(\<Union>t\<in>UNIV. ?A t) = {a. amount (stakes st a) \<noteq> 0}" by auto
  ultimately show ?thesis by (simp add: stakers_in_def)
qed

lemma staking_counts_invariant:
  assumes "staking_reachable st"
  shows "totalStaked st = (\<Sum>a\<in>UNIV. amount (stakes st a)) \<and>
         sum_list (map (tierStakers st) all_tiers) = card {a. amount (stakes st a) \<noteq> 0}"
proof -
  from staking_reachable_inv [OF assms]
  have t: "totalStaked st = staked_sum st" and c: "\<And>t. tierStakers st t = stakers_in st t"
    by (simp_all add: staking_inv_def)
  have "distinct all_tiers" by (simp add: all_tiers_def)
  then have "sum_list (map (tierStakers st) all_tiers) = (\<Sum>t\<in>set all_tiers. tierStakers st t)"
    by (rule sum_list_distinct_conv_sum_set)
  also have "\<dots> = (\<Sum>t\<in>UNIV. stakers_in st t)"
    by (simp add: set_all_tiers c)
  finally show ?thesis using t stakers_partition [of st] by (simp add: staked_sum_def)
qed

lemma scenario_two_stakes_eq:
  "snd scenario_two_stakes =
     scenario_staking0\<lparr>totalStaked := 500 * 10 ^ 18,
       stakes := (\<lambda>_. empty_stake)(6 := \<lparr>amount = 500 * 10 ^ 18, startTime = 1000,
         lastClaimTime = 87400, tier = SILVER, rewardDebt = 8640000\<rparr>),
       tierStakers := (\<lambda>_. 0)(BRONZE := 0, SILVER := 1),
       tierTotalStaked := (\<lambda>_. 0)(BRONZE := 0, SILVER := 400 * 10 ^ 18)\<rparr>"
  by (simp add: scenario_two_stakes_def scenario_stake_token_eq scenario_staking0_def
      staking_defs token_defs arith_defs Let_def)

lemma scenario_unstaked_eq:
  "snd scenario_unstaked =
     scenario_staking0\<lparr>totalStaked := 100 * 10 ^ 18,
       stakes := (\<lambda>_. empty_stake)(6 := \<lparr>amount = 100 * 10 ^ 18, startTime = 1000,
         lastClaimTime = 87400, tier = BRONZE, rewardDebt = 108000000\<rparr>),
       tierStakers := (\<lambda>_. 0)(PLATINUM := 0, BRONZE := 1),
       tierTotalStaked := (\<lambda>_. 0)(BRONZE := 100 * 10 ^ 18, PLATINUM := 100 * 10 ^ 18)\<rparr>"
  by (simp add: scenario_unstaked_def scenario_stake_token_eq scenario_staking0_def
      staking_defs token_defs arith_defs Let_def)

text \<open>
  C1: the claim is that after any calls the per-tier totals add up to \<open>totalStaked\<close> and the
  per-tier staker counts to the number of stakers, also across a change of tier. On the code
  the first part fails. Address 6 stakes 100 tokens (BRONZE) and, a day later, 400 more
  (SILVER): both calls succeed; the stake and \<open>totalStaked\<close> are 500 tokens and exactly one
  staker is counted, but the per-tier totals add up to 400 tokens, because the move to SILVER
  takes the old 100 tokens out of BRONZE and puts only the 400 new ones into SILVER. Address 6
  stakes 1,000 tokens (PLATINUM) and unstakes 900 a day later (BRONZE): the stake and
  \<open>totalStaked\<close> are 100 tokens, but the per-tier totals add up to 200, because the move puts
  the remaining 100 tokens into BRONZE and takes only the 900 withdrawn out of PLATINUM.
\<close>

theorem tier_totals_diverge_after_tier_change:
  "amount (stakes (snd scenario_two_stakes) 6) = 500 * 10 ^ 18 \<and>
   tier (stakes (snd scenario_two_stakes) 6) = SILVER \<and>
   totalStaked (snd scenario_two_stakes) = 500 * 10 ^ 18 \<and>
   sum_list (map (tierStakers (snd scenario_two_stakes)) all_tiers) = 1 \<and>
   tierTotalStaked (snd scenario_two_stakes) BRONZE = 0 \<and>
   tierTotalStaked (snd scenario_two_stakes) SILVER = 400 * 10 ^ 18 \<and>
   sum_list (map (tierTotalStaked (snd scenario_two_stakes)) all_tiers) = 400 * 10 ^ 18 \<and>
   sum_list (map (tierTotalStaked (snd scenario_two_stakes)) all_tiers)
     \<noteq> totalStaked (snd scenario_two_stakes) \<and>
   amount (stakes (snd scenario_unstaked) 6) = 100 * 10 ^ 18 \<and>
   tier (stakes (snd scenario_unstaked) 6) = BRONZE \<and>
   totalStaked (snd scenario_unstaked) = 100 * 10 ^ 18 \<and>
   sum_list (map (tierStakers (snd scenario_unstaked)) all_tiers) = 1 \<and>
   sum_list (map (tierTotalStaked (snd scenario_unstaked)) all_tiers) = 200 * 10 ^ 18 \<and>
   sum_list (map (tierTotalStaked (snd scenario_unstaked)) all_tiers)
     \<noteq> totalStaked (snd scenario_unstaked)"
  by (simp add: scenario_two_stakes_eq scenario_unstaked_eq all_tiers_def)

end
